theory Spec2Isabelle
  imports Complex_Main "HOL-Library.AList"
begin

section \<open>Exceptions\<close>

text \<open>
  Every \<^verbatim>\<open>raise\<close> of the program and of the libraries it calls is a value. An exception
  carries its class and the text \<^verbatim>\<open>str(e)\<close> that the handlers of \<^verbatim>\<open>main.py\<close> print.
  \<open>NonException\<close> stands for the classes that derive from \<^verbatim>\<open>BaseException\<close> only
  (\<^verbatim>\<open>KeyboardInterrupt\<close>, \<^verbatim>\<open>SystemExit\<close>): \<^verbatim>\<open>except Exception\<close> lets them pass.
\<close>

datatype exn_class =
    KeyError
  | IndexError
  | AttributeError
  | ZeroDivisionError
  | TypeError
  | OtherException string
  | NonException string

datatype exn = Exn (cls: exn_class) (msg: string)

text \<open>\<^verbatim>\<open>except KeyError\<close>\<close>

definition is_KeyError :: "exn \<Rightarrow> bool" where
  "is_KeyError e = (cls e = KeyError)"

text \<open>\<^verbatim>\<open>except Exception\<close>\<close>

definition is_Exception :: "exn \<Rightarrow> bool" where
  "is_Exception e = (case cls e of NonException _ \<Rightarrow> False | _ \<Rightarrow> True)"

section \<open>Financial statements\<close>

text \<open>
  A statement is the provider's table: a row of period values for each line-item label,
  most recent period first. The cells have the type \<open>'v\<close> the provider gives them; the
  program only moves them around, divides two of them and formats the quotient.
  \<^verbatim>\<open>df.loc[label]\<close> raises \<^verbatim>\<open>KeyError\<close> when the label is not in the index, and
  \<^verbatim>\<open>row.iloc[0]\<close> raises \<^verbatim>\<open>IndexError\<close> on a row with no period.
\<close>

type_synonym 'v statement = "string \<rightharpoonup> 'v list"

definition loc :: "'v statement \<Rightarrow> string \<Rightarrow> exn + 'v list" where
  "loc df label =
     (case df label of
        None \<Rightarrow> Inl (Exn KeyError ([CHR 0x27] @ label @ [CHR 0x27]))
      | Some row \<Rightarrow> Inr row)"

definition iloc0 :: "'v list \<Rightarrow> exn + 'v" where
  "iloc0 row =
     (case row of
        [] \<Rightarrow> Inl (Exn IndexError ''single positional indexer is out-of-bounds'')
      | x # _ \<Rightarrow> Inr x)"

text \<open>
  \<^verbatim>\<open>stmt.loc[label].iloc[0]\<close> on an attribute of the analyzer, which is \<^verbatim>\<open>None\<close> until
  the statements are fetched.
\<close>

definition loc_iloc0 :: "'v statement option \<Rightarrow> string \<Rightarrow> exn + 'v" where
  "loc_iloc0 stmt label =
     (case stmt of
        None \<Rightarrow>
          Inl (Exn AttributeError
                 ([CHR 0x27] @ ''NoneType'' @ [CHR 0x27] @ '' object has no attribute ''
                  @ [CHR 0x27] @ ''loc'' @ [CHR 0x27]))
      | Some df \<Rightarrow> (case loc df label of Inl e \<Rightarrow> Inl e | Inr row \<Rightarrow> iloc0 row))"

section \<open>The analyzer\<close>

type_synonym 'v ratios = "(string \<times> 'v) list"

record 'v analyzer =
  ticker :: string
  income_stmt :: "'v statement option"
  balance_sheet :: "'v statement option"
  cash_flow :: "'v statement option"
  financial_ratios :: "'v ratios"

text \<open>
  \<^verbatim>\<open>financial_ratios\<close> is a Python dict: iteration follows insertion order, and an
  assignment to a key that is there keeps its place. \<open>AList.update\<close> does both.
\<close>

definition FinancialAnalyzer :: "string \<Rightarrow> 'v analyzer" where
  "FinancialAnalyzer t =
     \<lparr>ticker = t, income_stmt = None, balance_sheet = None, cash_flow = None,
      financial_ratios = []\<rparr>"

section \<open>What a run shows and calls\<close>

record request =
  model :: string
  messages :: "(string \<times> string) list"
  max_tokens :: nat
  temperature :: real

datatype 'v event =
    St_title string
  | St_sidebar_header string
  | St_sidebar_text_input string string
  | St_sidebar_write string
  | St_sidebar_checkbox string
  | St_spinner string
  | St_subheader string
  | St_write string
  | St_write_statement "'v statement option"
  | St_write_ratios "'v ratios"
  | St_markdown string
  | St_success string
  | St_info string
  | St_warning string
  | St_error string
  | Yf_Ticker string
  | Yf_read string string
  | Invoked string
  | Chat_create request

section \<open>Ratio computation\<close>

text \<open>
  The operator \<^verbatim>\<open>/\<close> is the one of the cells' runtime type: \<open>dv\<close>, a parameter. The
  numerator's cell is read first, then the denominator's, then they are divided.
\<close>

definition quotient ::
  "('v \<Rightarrow> 'v \<Rightarrow> exn + 'v) \<Rightarrow> 'v statement option \<Rightarrow> string \<Rightarrow> string \<Rightarrow> exn + 'v" where
  "quotient dv stmt num den =
     (case loc_iloc0 stmt num of
        Inl e \<Rightarrow> Inl e
      | Inr a \<Rightarrow> (case loc_iloc0 stmt den of Inl e \<Rightarrow> Inl e | Inr b \<Rightarrow> dv a b))"

text \<open>
  One \<^verbatim>\<open>try\<close> block of \<^verbatim>\<open>calculate_financial_ratios\<close>, on the pair of the ratios
  dictionary and the local list \<^verbatim>\<open>missing_data\<close>. The assignment is the block's last
  step, so a block that raises leaves the pair as it found it.
\<close>

definition ratio_block ::
  "('v \<Rightarrow> 'v \<Rightarrow> exn + 'v) \<Rightarrow> 'v statement option \<Rightarrow> string \<Rightarrow> string \<Rightarrow> string \<Rightarrow>
   'v ratios \<times> string list \<Rightarrow> exn + 'v ratios \<times> string list" where
  "ratio_block dv stmt num den name s =
     (case quotient dv stmt num den of
        Inr q \<Rightarrow> Inr (AList.update name q (fst s), snd s)
      | Inl e \<Rightarrow> if is_KeyError e then Inr (fst s, snd s @ [name]) else Inl e)"

text \<open>
  The body of the outer \<^verbatim>\<open>try\<close>: the three blocks in the order of the source. It
  ends with the dictionary and \<^verbatim>\<open>missing_data\<close> as they are then, either past the last
  block or at the exception that leaves a block.
\<close>

datatype 'v body_result =
    Finished "'v ratios" "string list"
  | Raised "'v ratios" "string list" exn

definition ratios_body :: "('v \<Rightarrow> 'v \<Rightarrow> exn + 'v) \<Rightarrow> 'v analyzer \<Rightarrow> 'v body_result" where
  "ratios_body dv a =
     (let s0 = (financial_ratios a, []) in
      case ratio_block dv (income_stmt a) ''Gross Profit'' ''Total Revenue''
             ''Gross Margin'' s0 of
        Inl e \<Rightarrow> Raised (fst s0) (snd s0) e
      | Inr s1 \<Rightarrow>
          (case ratio_block dv (balance_sheet a) ''Total Current Assets''
                  ''Total Current Liabilities'' ''Current Ratio'' s1 of
             Inl e \<Rightarrow> Raised (fst s1) (snd s1) e
           | Inr s2 \<Rightarrow>
               (case ratio_block dv (balance_sheet a) ''Total Liab''
                       ''Total Stockholder Equity'' ''Debt-to-Equity Ratio'' s2 of
                  Inl e \<Rightarrow> Raised (fst s2) (snd s2) e
                | Inr s3 \<Rightarrow> Finished (fst s3) (snd s3))))"

fun join :: "string \<Rightarrow> string list \<Rightarrow> string" where
  "join sep [] = []"
| "join sep [x] = x"
| "join sep (x # y # ys) = x @ sep @ join sep (y # ys)"

text \<open>
  \<^verbatim>\<open>calculate_financial_ratios\<close> returns the analyzer as it leaves it, what it showed,
  and the exception that leaves the method, if one does.
\<close>

definition calculate_financial_ratios ::
  "('v \<Rightarrow> 'v \<Rightarrow> exn + 'v) \<Rightarrow> 'v analyzer \<Rightarrow> 'v analyzer \<times> 'v event list \<times> exn option" where
  "calculate_financial_ratios dv a =
     (case ratios_body dv a of
        Finished r missing_data \<Rightarrow>
          (a\<lparr>financial_ratios := r\<rparr>,
           if missing_data \<noteq> [] then
             [St_warning (''Unable to calculate the following ratios due to missing data: ''
                @ join '', '' missing_data)]
           else [],
           None)
      | Raised r missing_data e \<Rightarrow>
          if is_Exception e then
            (a\<lparr>financial_ratios := r\<rparr>,
             [St_error (''Error calculating financial ratios: '' @ msg e)], None)
          else (a\<lparr>financial_ratios := r\<rparr>, [], Some e))"

text \<open>
  Python's \<^verbatim>\<open>/\<close> on its own numbers, with the floats read as the reals they stand for:
  a zero divisor raises.
\<close>

definition truediv_py :: "real \<Rightarrow> real \<Rightarrow> exn + real" where
  "truediv_py a b =
     (if b = 0 then Inl (Exn ZeroDivisionError ''float division by zero'') else Inr (a / b))"

text \<open>How a block ends, read off the result of its three steps.\<close>

datatype 'v outcome = Value 'v | Missing | Abort exn

definition outcome :: "exn + 'v \<Rightarrow> 'v outcome" where
  "outcome r =
     (case r of Inr q \<Rightarrow> Value q | Inl e \<Rightarrow> if is_KeyError e then Missing else Abort e)"

definition aborts :: "exn + 'v \<Rightarrow> bool" where
  "aborts r = (case r of Inl e \<Rightarrow> \<not> is_KeyError e | Inr _ \<Rightarrow> False)"

abbreviation gross_margin :: "('v \<Rightarrow> 'v \<Rightarrow> exn + 'v) \<Rightarrow> 'v analyzer \<Rightarrow> exn + 'v" where
  "gross_margin dv a \<equiv> quotient dv (income_stmt a) ''Gross Profit'' ''Total Revenue''"

abbreviation current_ratio :: "('v \<Rightarrow> 'v \<Rightarrow> exn + 'v) \<Rightarrow> 'v analyzer \<Rightarrow> exn + 'v" where
  "current_ratio dv a \<equiv>
     quotient dv (balance_sheet a) ''Total Current Assets'' ''Total Current Liabilities''"

abbreviation debt_to_equity :: "('v \<Rightarrow> 'v \<Rightarrow> exn + 'v) \<Rightarrow> 'v analyzer \<Rightarrow> exn + 'v" where
  "debt_to_equity dv a \<equiv>
     quotient dv (balance_sheet a) ''Total Liab'' ''Total Stockholder Equity''"

text \<open>The local list \<^verbatim>\<open>missing_data\<close> when the body of the method ends.\<close>

definition missing_data :: "('v \<Rightarrow> 'v \<Rightarrow> exn + 'v) \<Rightarrow> 'v analyzer \<Rightarrow> string list" where
  "missing_data dv a = (case ratios_body dv a of Finished r m \<Rightarrow> m | Raised r m e \<Rightarrow> m)"

section \<open>Fetching the statements\<close>

text \<open>
  The three properties of \<^verbatim>\<open>yf.Ticker(ticker)\<close> that the program reads. Each read
  returns a table or raises.
\<close>

record 'v provider =
  yf_financials :: "string \<Rightarrow> exn + 'v statement"
  yf_balance_sheet :: "string \<Rightarrow> exn + 'v statement"
  yf_cashflow :: "string \<Rightarrow> exn + 'v statement"

definition fetch_handler ::
  "'v analyzer \<Rightarrow> 'v event list \<Rightarrow> exn \<Rightarrow> 'v analyzer \<times> 'v event list \<times> (exn + bool)" where
  "fetch_handler a evs e =
     (if is_Exception e then
        (a, evs @ [St_error (''Error fetching financial statements: '' @ msg e)], Inr False)
      else (a, evs, Inl e))"

definition fetch_financial_statements ::
  "'v provider \<Rightarrow> 'v analyzer \<Rightarrow> 'v analyzer \<times> 'v event list \<times> (exn + bool)" where
  "fetch_financial_statements p a =
     (let t = ticker a in
      case yf_financials p t of
        Inl e \<Rightarrow> fetch_handler a [Yf_read t ''financials''] e
      | Inr i \<Rightarrow>
          (let a1 = a\<lparr>income_stmt := Some i\<rparr> in
           case yf_balance_sheet p t of
             Inl e \<Rightarrow>
               fetch_handler a1 [Yf_read t ''financials'', Yf_read t ''balance_sheet''] e
           | Inr b \<Rightarrow>
               (let a2 = a1\<lparr>balance_sheet := Some b\<rparr> in
                case yf_cashflow p t of
                  Inl e \<Rightarrow>
                    fetch_handler a2
                      [Yf_read t ''financials'', Yf_read t ''balance_sheet'',
                       Yf_read t ''cashflow''] e
                | Inr c \<Rightarrow>
                    (a2\<lparr>cash_flow := Some c\<rparr>,
                     [Yf_read t ''financials'', Yf_read t ''balance_sheet'',
                      Yf_read t ''cashflow''],
                     Inr True))))"

section \<open>Strings\<close>

text \<open>
  A \<^verbatim>\<open>str\<close> is the list of the bytes of its UTF-8 encoding, so \<^verbatim>\<open>text.encode()\<close> and the
  \<^verbatim>\<open>decode()\<close> of ASCII bytes leave the list as it is. \<^verbatim>\<open>upper\<close> and \<^verbatim>\<open>strip\<close> are
  Python's on ASCII; bytes of longer encodings are left alone.
\<close>

definition str_encode :: "string \<Rightarrow> string" where
  "str_encode text = text"

definition bytes_decode :: "string \<Rightarrow> string" where
  "bytes_decode bs = bs"

definition upper_char :: "char \<Rightarrow> char" where
  "upper_char c =
     (let k = (of_char c :: nat) in if 97 \<le> k \<and> k \<le> 122 then char_of (k - 32) else c)"

definition upper :: "string \<Rightarrow> string" where
  "upper s = map upper_char s"

definition isspace :: "char \<Rightarrow> bool" where
  "isspace c = (let k = (of_char c :: nat) in (9 \<le> k \<and> k \<le> 13) \<or> (28 \<le> k \<and> k \<le> 32))"

definition strip :: "string \<Rightarrow> string" where
  "strip s = rev (dropWhile isspace (rev (dropWhile isspace s)))"

section \<open>Formatting a Python number with \<^verbatim>\<open>.2f\<close>\<close>

fun dec :: "nat \<Rightarrow> string" where
  "dec n = (if n < 10 then [char_of (48 + n)] else dec (n div 10) @ [char_of (48 + n mod 10)])"

declare dec.simps [simp del]

definition round_half_even :: "real \<Rightarrow> int" where
  "round_half_even x =
     (let f = \<lfloor>x\<rfloor>; d = x - of_int f in
      if d < 1 / 2 then f else if 1 / 2 < d then f + 1 else if even f then f else f + 1)"

definition format_2f_py :: "real \<Rightarrow> exn + string" where
  "format_2f_py x =
     (let n = nat (round_half_even (\<bar>x\<bar> * 100)) in
      Inr ((if x < 0 then ''-'' else []) @ dec (n div 100) @ ''.''
           @ [char_of (48 + n mod 100 div 10), char_of (48 + n mod 10)]))"


section \<open>The reports\<close>

text \<open>
  A completion response, as far as the program reads it: the \<^verbatim>\<open>message.content\<close> of each
  choice, which can be \<^verbatim>\<open>None\<close>.
\<close>

record response =
  choices :: "string option list"

definition first_content :: "response \<Rightarrow> exn + string" where
  "first_content r =
     (case choices r of
        [] \<Rightarrow> Inl (Exn IndexError ''list index out of range'')
      | None # _ \<Rightarrow>
          Inl (Exn AttributeError
                 ([CHR 0x27] @ ''NoneType'' @ [CHR 0x27] @ '' object has no attribute ''
                  @ [CHR 0x27] @ ''strip'' @ [CHR 0x27]))
      | Some t # _ \<Rightarrow> Inr (strip t))"

definition report_handler ::
  "'v event list \<Rightarrow> exn \<Rightarrow> 'v event list \<times> (exn + string option)" where
  "report_handler evs e =
     (if is_Exception e then
        (evs @ [St_error (''Error generating financial report: '' @ msg e)], Inr None)
      else (evs, Inl e))"

text \<open>The loop over \<^verbatim>\<open>financial_ratios.items()\<close>, with \<^verbatim>\<open>ratios_text\<close> as accumulator.\<close>

fun ratios_text :: "('v \<Rightarrow> exn + string) \<Rightarrow> string \<Rightarrow> 'v ratios \<Rightarrow> exn + string" where
  "ratios_text fmt acc [] = Inr acc"
| "ratios_text fmt acc ((ratio_name, ratio_value) # items) =
     (case fmt ratio_value of
        Inl e \<Rightarrow> Inl e
      | Inr s \<Rightarrow> ratios_text fmt (acc @ ratio_name @ '': '' @ s @ [CHR 0x0A]) items)"

definition ratio_prompt :: "string \<Rightarrow> string \<Rightarrow> string" where
  "ratio_prompt t rt =
     [CHR 0x0A] @ ''            Provide a detailed analysis of '' @ t @ [CHR 0x27]
     @ ''s financial health based on the following financial ratios:'' @ [CHR 0x0A]
     @ [CHR 0x0A] @ ''            '' @ rt @ [CHR 0x0A]
     @ [CHR 0x0A]
     @ ''            Discuss what each available ratio means for the company'' @ [CHR 0x27]
     @ ''s financial stability and performance.'' @ [CHR 0x0A]
     @ ''            ''"

definition ratio_request :: "string \<Rightarrow> request" where
  "ratio_request prompt =
     \<lparr>model = ''gpt-3.5-turbo'',
      messages = [(''system'', ''You are a financial analyst.''), (''user'', prompt)],
      max_tokens = 500, temperature = 7 / 10\<rparr>"

definition generate_financial_report ::
  "('v \<Rightarrow> exn + string) \<Rightarrow> (request \<Rightarrow> exn + response) \<Rightarrow> 'v analyzer \<Rightarrow>
   'v event list \<times> (exn + string option)" where
  "generate_financial_report fmt create a =
     (if financial_ratios a = [] then
        ([St_error ''No financial ratios available to generate the report.''], Inr None)
      else
        (case ratios_text fmt [] (financial_ratios a) of
           Inl e \<Rightarrow> report_handler [] e
         | Inr rt \<Rightarrow>
             (let req = ratio_request (ratio_prompt (ticker a) rt) in
              case create req of
                Inl e \<Rightarrow> report_handler [Chat_create req] e
              | Inr resp \<Rightarrow>
                  (case first_content resp of
                     Inl e \<Rightarrow> report_handler [Chat_create req] e
                   | Inr report \<Rightarrow> ([Chat_create req], Inr (Some report))))))"

definition fallback_prompt :: "string \<Rightarrow> string" where
  "fallback_prompt t =
     [CHR 0x0A] @ ''        Provide a detailed analysis of '' @ t @ [CHR 0x27]
     @ ''s financial health based on the available financial statements.'' @ [CHR 0x0A]
     @ [CHR 0x0A]
     @ ''        Discuss the company'' @ [CHR 0x27] @ ''s performance, financial stability, ''
     @ ''and any notable trends or observations.'' @ [CHR 0x0A]
     @ ''        ''"

definition fallback_request :: "string \<Rightarrow> request" where
  "fallback_request prompt =
     \<lparr>model = ''gpt-4o'',
      messages = [(''system'', ''You are a financial analyst.''), (''user'', prompt)],
      max_tokens = 2048, temperature = 1\<rparr>"

definition generate_report_with_available_data ::
  "(request \<Rightarrow> exn + response) \<Rightarrow> 'v analyzer \<Rightarrow> 'v event list \<times> (exn + string option)" where
  "generate_report_with_available_data create a =
     (let req = fallback_request (fallback_prompt (ticker a)) in
      case create req of
        Inl e \<Rightarrow> report_handler [Chat_create req] e
      | Inr resp \<Rightarrow>
          (case first_content resp of
             Inl e \<Rightarrow> report_handler [Chat_create req] e
           | Inr report \<Rightarrow> ([Chat_create req], Inr (Some report))))"

section \<open>The download link\<close>

text \<open>
  \<^verbatim>\<open>base64.b64encode\<close>: three bytes become four characters of the alphabet
  \<^verbatim>\<open>A-Z a-z 0-9 + /\<close>, and a last group of one or two bytes is padded with \<^verbatim>\<open>=\<close>.
\<close>

definition b64char :: "nat \<Rightarrow> char" where
  "b64char n =
     (if n < 26 then char_of (65 + n)
      else if n < 52 then char_of (71 + n)
      else if n < 62 then char_of (n - 4)
      else if n = 62 then CHR ''+'' else CHR ''/'')"

fun b64encode :: "string \<Rightarrow> string" where
  "b64encode [] = []"
| "b64encode [a] =
     (let x = (of_char a :: nat) in
      [b64char (x div 4), b64char (x mod 4 * 16), CHR ''='', CHR ''=''])"
| "b64encode [a, b] =
     (let x = (of_char a :: nat); y = (of_char b :: nat) in
      [b64char (x div 4), b64char (x mod 4 * 16 + y div 16), b64char (y mod 16 * 4),
       CHR ''=''])"
| "b64encode (a # b # c # rest) =
     (let x = (of_char a :: nat); y = (of_char b :: nat); z = (of_char c :: nat) in
      [b64char (x div 4), b64char (x mod 4 * 16 + y div 16),
       b64char (y mod 16 * 4 + z div 64), b64char (z mod 64)] @ b64encode rest)"

text \<open>The decoding of the standard, which a reader of the link applies to the payload.\<close>

definition b64index :: "char \<Rightarrow> nat option" where
  "b64index c =
     (let k = (of_char c :: nat) in
      if 65 \<le> k \<and> k \<le> 90 then Some (k - 65)
      else if 97 \<le> k \<and> k \<le> 122 then Some (k - 71)
      else if 48 \<le> k \<and> k \<le> 57 then Some (k + 4)
      else if k = 43 then Some 62
      else if k = 47 then Some 63
      else None)"

fun b64decode :: "string \<Rightarrow> string option" where
  "b64decode [] = Some []"
| "b64decode (c1 # c2 # c3 # c4 # rest) =
     (case (b64index c1, b64index c2) of
        (Some i, Some j) \<Rightarrow>
          if c3 = CHR ''='' then
            (if c4 = CHR ''='' \<and> rest = [] then Some [char_of (i * 4 + j div 16)] else None)
          else
            (case b64index c3 of
               None \<Rightarrow> None
             | Some k \<Rightarrow>
                 if c4 = CHR ''='' then
                   (if rest = [] then
                      Some [char_of (i * 4 + j div 16), char_of (j mod 16 * 16 + k div 4)]
                    else None)
                 else
                   (case b64index c4 of
                      None \<Rightarrow> None
                    | Some l \<Rightarrow>
                        (case b64decode rest of
                           None \<Rightarrow> None
                         | Some bs \<Rightarrow>
                             Some (char_of (i * 4 + j div 16)
                                   # char_of (j mod 16 * 16 + k div 4)
                                   # char_of (k mod 4 * 64 + l) # bs))))
      | _ \<Rightarrow> None)"
| "b64decode _ = None"

definition link_prefix :: string where
  "link_prefix = ''<a href='' @ [CHR 0x22] @ ''data:file/txt;base64,''"

definition link_middle :: string where
  "link_middle = [CHR 0x22] @ '' download='' @ [CHR 0x22]"

definition link_suffix :: string where
  "link_suffix = [CHR 0x22] @ ''>Download Report</a>''"

definition get_text_download_link :: "string \<Rightarrow> string \<Rightarrow> string" where
  "get_text_download_link text filename =
     (let b64 = bytes_decode (b64encode (str_encode text)) in
      link_prefix @ b64 @ link_middle @ filename @ link_suffix)"

text \<open>
  Reading a link back: the payload runs from the end of the \<^verbatim>\<open>data:\<close> prefix to the
  quote that closes \<^verbatim>\<open>href\<close>; the value of \<^verbatim>\<open>download\<close> is what stands between the
  attribute's opening and the closing text of the anchor.
\<close>

definition href_payload :: "string \<Rightarrow> string" where
  "href_payload href = takeWhile (\<lambda>c. c \<noteq> CHR 0x22) (drop (length link_prefix) href)"

definition href_download :: "string \<Rightarrow> string" where
  "href_download href =
     (let r = drop (length link_prefix + length (href_payload href) + length link_middle) href
      in take (length r - length link_suffix) r)"

section \<open>The page\<close>

text \<open>
  What a run of \<^verbatim>\<open>main\<close> meets: the content of the ticker field, the state of the
  checkbox, the data provider, the completion API, and the division and the
  \<^verbatim>\<open>.2f\<close> formatting of the cells' runtime type.
\<close>

record 'v env =
  text_input :: string
  checkbox :: bool
  stock :: "'v provider"
  truediv :: "'v \<Rightarrow> 'v \<Rightarrow> exn + 'v"
  format_2f :: "'v \<Rightarrow> exn + string"
  chat_create :: "request \<Rightarrow> exn + response"

text \<open>\<^verbatim>\<open>if report:\<close> on a value that is \<^verbatim>\<open>None\<close> or a string.\<close>

definition truthy :: "string option \<Rightarrow> bool" where
  "truthy report = (case report of None \<Rightarrow> False | Some r \<Rightarrow> r \<noteq> [])"

text \<open>The branch of \<^verbatim>\<open>main\<close> under \<^verbatim>\<open>if analyzer.financial_ratios:\<close>.\<close>

definition main_ratios_branch ::
  "'v env \<Rightarrow> string \<Rightarrow> 'v analyzer \<Rightarrow> 'v event list \<times> exn option" where
  "main_ratios_branch env t a =
     (let shown =
        [St_success ''Data fetched and ratios calculated.'',
         St_sidebar_checkbox ''Show Raw Financial Statements'']
        @ (if checkbox env then
             [St_subheader ''Income Statement'', St_write_statement (income_stmt a),
              St_subheader ''Balance Sheet'', St_write_statement (balance_sheet a),
              St_subheader ''Cash Flow Statement'', St_write_statement (cash_flow a)]
           else [])
        @ [St_subheader ''Key Financial Ratios'', St_write_ratios (financial_ratios a),
           St_spinner ''Generating AI report...'', Invoked ''generate_financial_report'']
      in case generate_financial_report (format_2f env) (chat_create env) a of
           (evs, Inl e) \<Rightarrow> (shown @ evs, Some e)
         | (evs, Inr report) \<Rightarrow>
             if truthy report then
               (shown @ evs
                @ [St_subheader ''AI-Generated Financial Report'', St_write (the report),
                   St_markdown
                     (get_text_download_link (the report) (t @ ''_financial_report.txt''))],
                None)
             else (shown @ evs @ [St_error ''Failed to generate financial report.''], None))"

text \<open>The \<^verbatim>\<open>else\<close> branch: no ratio was recorded.\<close>

definition main_fallback_branch ::
  "'v env \<Rightarrow> 'v analyzer \<Rightarrow> 'v event list \<times> exn option" where
  "main_fallback_branch env a =
     (let shown =
        [St_error ''Financial ratios could not be calculated.'',
         St_info ''Generating report based on available financial data.'',
         Invoked ''generate_report_with_available_data'']
      in case generate_report_with_available_data (chat_create env) a of
           (evs, Inl e) \<Rightarrow> (shown @ evs, Some e)
         | (evs, Inr report) \<Rightarrow>
             if truthy report then
               (shown @ evs
                @ [St_subheader ''AI-Generated Financial Report'', St_write (the report)],
                None)
             else
               (shown @ evs
                @ [St_error ''Unable to generate report due to insufficient data.''],
                None))"

text \<open>
  \<^verbatim>\<open>main\<close>: the events of the run in order, and the exception that ends it, if one
  passes every handler.
\<close>

definition main :: "'v env \<Rightarrow> 'v event list \<times> exn option" where
  "main env =
     (let t = upper (text_input env);
          page =
            [St_title ''AI-Powered Financial Statement Analyzer and Report Generator'',
             St_sidebar_header ''User Input'',
             St_sidebar_text_input ''Stock Ticker Symbol'' ''AAPL'']
      in if t = [] then (page, None)
         else
           (let started =
                  page @ [St_sidebar_write (''Analyzing: '' @ t), St_spinner ''Fetching data...'',
                          Invoked ''FinancialAnalyzer'', Yf_Ticker t,
                          Invoked ''fetch_financial_statements'']
            in case fetch_financial_statements (stock env) (FinancialAnalyzer t) of
                 (a1, evf, Inl e) \<Rightarrow> (started @ evf, Some e)
               | (a1, evf, Inr ok) \<Rightarrow>
                   if ok then
                     (case calculate_financial_ratios (truediv env) a1 of
                        (a2, evc, Some e) \<Rightarrow>
                          (started @ evf @ [Invoked ''calculate_financial_ratios''] @ evc,
                           Some e)
                      | (a2, evc, None) \<Rightarrow>
                          (let (evs, r) =
                                 (if financial_ratios a2 \<noteq> [] then main_ratios_branch env t a2
                                  else main_fallback_branch env a2)
                           in (started @ evf @ [Invoked ''calculate_financial_ratios'']
                               @ evc @ evs, r)))
                   else
                     (started @ evf
                      @ [St_error
                           ''Failed to fetch data. Please check the ticker symbol and try again.''],
                      None)))"

section \<open>Inputs for the examples\<close>

text \<open>
  A required row of a statement is missing: the table is there and the label of the
  numerator or of the denominator is not in its index.
\<close>

definition row_missing :: "'v statement option \<Rightarrow> string \<Rightarrow> string \<Rightarrow> bool" where
  "row_missing stmt num den =
     (case stmt of None \<Rightarrow> False | Some df \<Rightarrow> df num = None \<or> df den = None)"

text \<open>An analyzer after a fetch: the statements are in place and no ratio is recorded.\<close>

definition fetched :: "string \<Rightarrow> 'v statement \<Rightarrow> 'v statement \<Rightarrow> 'v analyzer" where
  "fetched t inc bal =
     \<lparr>ticker = t, income_stmt = Some inc, balance_sheet = Some bal,
      cash_flow = Some Map.empty, financial_ratios = []\<rparr>"

definition complete_balance :: "real statement" where
  "complete_balance =
     [''Total Current Assets'' \<mapsto> [135405000000],
      ''Total Current Liabilities'' \<mapsto> [153982000000],
      ''Total Liab'' \<mapsto> [302083000000],
      ''Total Stockholder Equity'' \<mapsto> [50672000000]]"

definition complete_income :: "real statement" where
  "complete_income =
     [''Gross Profit'' \<mapsto> [170782000000], ''Total Revenue'' \<mapsto> [394328000000]]"

text \<open>Revenue zero in the most recent period.\<close>

definition zero_revenue_income :: "real statement" where
  "zero_revenue_income = [''Gross Profit'' \<mapsto> [1], ''Total Revenue'' \<mapsto> [0]]"

text \<open>A balance sheet without the row of the current assets.\<close>

definition no_current_assets :: "real statement" where
  "no_current_assets =
     [''Total Current Liabilities'' \<mapsto> [153982000000],
      ''Total Liab'' \<mapsto> [302083000000],
      ''Total Stockholder Equity'' \<mapsto> [50672000000]]"


text \<open>
  The division of numpy's \<^verbatim>\<open>float64\<close>, which the cells of a table of that dtype have:
  a zero divisor gives \<^verbatim>\<open>inf\<close>, \<^verbatim>\<open>-inf\<close> or \<^verbatim>\<open>nan\<close> and a warning, never an
  exception. Finite values are the reals they stand for; signed zeros are not told apart.
\<close>

datatype float64 = Fin real | PInf | NInf | NaN

definition truediv_np :: "float64 \<Rightarrow> float64 \<Rightarrow> exn + float64" where
  "truediv_np a b =
     Inr (case (a, b) of
            (Fin x, Fin y) \<Rightarrow>
              if y \<noteq> 0 then Fin (x / y)
              else if x = 0 then NaN else if 0 < x then PInf else NInf
          | (Fin x, PInf) \<Rightarrow> Fin 0
          | (Fin x, NInf) \<Rightarrow> Fin 0
          | (PInf, Fin y) \<Rightarrow> if 0 \<le> y then PInf else NInf
          | (NInf, Fin y) \<Rightarrow> if 0 \<le> y then NInf else PInf
          | _ \<Rightarrow> NaN)"

text \<open>Balance sheets with a zero denominator in the most recent period.\<close>

definition zero_liabilities_balance :: "real statement" where
  "zero_liabilities_balance =
     [''Total Current Assets'' \<mapsto> [135405000000],
      ''Total Current Liabilities'' \<mapsto> [0],
      ''Total Liab'' \<mapsto> [302083000000],
      ''Total Stockholder Equity'' \<mapsto> [50672000000]]"

definition zero_equity_balance :: "real statement" where
  "zero_equity_balance =
     [''Total Current Assets'' \<mapsto> [135405000000],
      ''Total Current Liabilities'' \<mapsto> [153982000000],
      ''Total Liab'' \<mapsto> [302083000000],
      ''Total Stockholder Equity'' \<mapsto> [0]]"

text \<open>An income statement whose rows have no period.\<close>

definition np_no_period_income :: "float64 statement" where
  "np_no_period_income = [''Gross Profit'' \<mapsto> [], ''Total Revenue'' \<mapsto> []]"

definition np_zero_revenue_income :: "float64 statement" where
  "np_zero_revenue_income = [''Gross Profit'' \<mapsto> [Fin 1], ''Total Revenue'' \<mapsto> [Fin 0]]"

text \<open>An income statement without the row of the gross profit.\<close>

definition no_gross_profit_income :: "real statement" where
  "no_gross_profit_income = [''Total Revenue'' \<mapsto> [394328000000]]"

text \<open>
  An income statement whose only row is the gross profit, with no period: the revenue is
  missing, and the read of the gross profit, which comes first, raises \<^verbatim>\<open>IndexError\<close>.
\<close>

definition gross_profit_without_period :: "real statement" where
  "gross_profit_without_period = [''Gross Profit'' \<mapsto> []]"

text \<open>
  A provider with the statements of the examples for every ticker, one whose tables are
  empty, as for a symbol it does not know, and a completion API whose answer carries
  white space at both ends.
\<close>

definition demo_provider :: "real provider" where
  "demo_provider =
     \<lparr>yf_financials = (\<lambda>t. Inr complete_income),
      yf_balance_sheet = (\<lambda>t. Inr complete_balance),
      yf_cashflow = (\<lambda>t. Inr Map.empty)\<rparr>"


definition demo_chat :: "request \<Rightarrow> exn + response" where
  "demo_chat req = Inr \<lparr>choices = [Some ('' Solid.'' @ [CHR 0x0A])]\<rparr>"

definition demo_env :: "real env" where
  "demo_env =
     \<lparr>text_input = ''aapl'', checkbox = False, stock = demo_provider, truediv = truediv_py,
      format_2f = format_2f_py, chat_create = demo_chat\<rparr>"


text \<open>
  The analyzer of the examples after the ratio computation, and the lines of its three
  ratios as the prompt has them.
\<close>

definition analysed :: "real analyzer" where
  "analysed =
     fst (calculate_financial_ratios truediv_py
            (fetched ''AAPL'' complete_income complete_balance))"

definition analysed_text :: string where
  "analysed_text =
     ''Gross Margin: 0.43'' @ [CHR 0x0A] @ ''Current Ratio: 0.88'' @ [CHR 0x0A]
     @ ''Debt-to-Equity Ratio: 5.96'' @ [CHR 0x0A]"

text \<open>The fetch and the ratio computation of a run of \<^verbatim>\<open>main\<close>.\<close>

abbreviation fetch_of :: "'v env \<Rightarrow> 'v analyzer \<times> 'v event list \<times> (exn + bool)" where
  "fetch_of env \<equiv>
     fetch_financial_statements (stock env) (FinancialAnalyzer (upper (text_input env)))"

abbreviation calc_of :: "'v env \<Rightarrow> 'v analyzer \<times> 'v event list \<times> exn option" where
  "calc_of env \<equiv> calculate_financial_ratios (truediv env) (fst (fetch_of env))"

abbreviation ratios_after :: "('v \<Rightarrow> 'v \<Rightarrow> exn + 'v) \<Rightarrow> 'v analyzer \<Rightarrow> 'v ratios" where
  "ratios_after dv a \<equiv> financial_ratios (fst (calculate_financial_ratios dv a))"

section \<open>Properties of the ratio computation\<close>

lemma keys_update: "fst ` set (AList.update k v al) = insert k (fst ` set al)"
  by (simp add: AList.dom_update)

lemma ratio_block_outcome:
  "ratio_block dv stmt num den name s =
    (case outcome (quotient dv stmt num den) of
       Value q \<Rightarrow> Inr (AList.update name q (fst s), snd s)
     | Missing \<Rightarrow> Inr (fst s, snd s @ [name])
     | Abort e \<Rightarrow> Inl e)"
  by (simp add: ratio_block_def outcome_def split: sum.splits)

lemma isl_outcome: "isl r = (case outcome r of Value _ \<Rightarrow> False | _ \<Rightarrow> True)"
  by (simp add: outcome_def split: sum.splits)

lemma aborts_outcome: "aborts r = (case outcome r of Abort _ \<Rightarrow> True | _ \<Rightarrow> False)"
  by (simp add: outcome_def aborts_def split: sum.splits)

lemma outcome_Inr [simp]: "outcome (Inr q) = Value q"
  by (simp add: outcome_def)

lemma loc_iloc0_present:
  "stmt = Some df \<Longrightarrow> df label = Some (x # xs) \<Longrightarrow> loc_iloc0 stmt label = Inr x"
  by (simp add: loc_iloc0_def loc_def iloc0_def)

lemma quotient_present:
  "stmt = Some df \<Longrightarrow> df num = Some (x # xs) \<Longrightarrow> df den = Some (y # ys) \<Longrightarrow>
   quotient dv stmt num den = dv x y"
  by (simp add: quotient_def loc_iloc0_present)

lemma quotient_Inr_iff:
  "(quotient dv stmt num den = Inr q) =
   (\<exists>x y. loc_iloc0 stmt num = Inr x \<and> loc_iloc0 stmt den = Inr y \<and> dv x y = Inr q)"
  by (auto simp: quotient_def split: sum.splits)

text \<open>
  C1: when the income statement has the rows Gross Profit and Total Revenue and the
  balance sheet has the rows Total Current Assets, Total Current Liabilities, Total
  Liab and Total Stockholder Equity, each with a most recent period, and the three
  denominators are not zero, \<open>calculate_financial_ratios\<close> records Gross Margin, Current
  Ratio and Debt-to-Equity Ratio as the quotients of the values of the first column,
  shows nothing and returns. The numbers are the reals the floats stand for, and the
  division is any that gives the quotient when the divisor is not zero.
\<close>

theorem ratios_are_quotients:
  fixes dv :: "real \<Rightarrow> real \<Rightarrow> exn + real"
  assumes dv: "\<And>x y. y \<noteq> 0 \<Longrightarrow> dv x y = Inr (x / y)"
    and inc: "income_stmt a = Some inc" "inc ''Gross Profit'' = Some (gp # r1)"
      "inc ''Total Revenue'' = Some (rv # r2)"
    and bal: "balance_sheet a = Some bal" "bal ''Total Current Assets'' = Some (ca # r3)"
      "bal ''Total Current Liabilities'' = Some (cl # r4)"
      "bal ''Total Liab'' = Some (li # r5)"
      "bal ''Total Stockholder Equity'' = Some (se # r6)"
    and nz: "rv \<noteq> 0" "cl \<noteq> 0" "se \<noteq> 0"
  shows "map_of (financial_ratios (fst (calculate_financial_ratios dv a))) ''Gross Margin''
           = Some (gp / rv)
       \<and> map_of (financial_ratios (fst (calculate_financial_ratios dv a))) ''Current Ratio''
           = Some (ca / cl)
       \<and> map_of (financial_ratios (fst (calculate_financial_ratios dv a)))
           ''Debt-to-Equity Ratio'' = Some (li / se)
       \<and> snd (calculate_financial_ratios dv a) = ([], None)"
proof -
  have g: "gross_margin dv a = Inr (gp / rv)"
    using inc nz dv by (simp add: quotient_present)
  have c: "current_ratio dv a = Inr (ca / cl)"
    using bal nz dv by (simp add: quotient_present)
  have d: "debt_to_equity dv a = Inr (li / se)"
    using bal nz dv by (simp add: quotient_present)
  show ?thesis
    by (simp add: calculate_financial_ratios_def ratios_body_def ratio_block_outcome g c d
        update_conv')
qed

theorem ratios_are_quotients_witness:
  "map_of (financial_ratios (fst (calculate_financial_ratios truediv_py
       (fetched ''AAPL'' complete_income complete_balance)))) ''Gross Margin''
     = Some (170782000000 / 394328000000)
   \<and> map_of (financial_ratios (fst (calculate_financial_ratios truediv_py
       (fetched ''AAPL'' complete_income complete_balance)))) ''Current Ratio''
     = Some (135405000000 / 153982000000)
   \<and> map_of (financial_ratios (fst (calculate_financial_ratios truediv_py
       (fetched ''AAPL'' complete_income complete_balance)))) ''Debt-to-Equity Ratio''
     = Some (302083000000 / 50672000000)"
  using ratios_are_quotients [of truediv_py "fetched ''AAPL'' complete_income complete_balance"
      complete_income 170782000000 "[]" 394328000000 "[]" complete_balance
      135405000000 "[]" 153982000000 "[]" 302083000000 "[]" 50672000000 "[]"]
  by (simp add: truediv_py_def fetched_def complete_income_def complete_balance_def)

lemma not_isl_iff: "(\<not> isl r) = (\<exists>q. r = Inr q)"
  by (cases r) auto

lemma quotient_returns_iff:
  "(\<exists>x y q. loc_iloc0 stmt num = Inr x \<and> loc_iloc0 stmt den = Inr y \<and> dv x y = Inr q)
     = (\<not> isl (quotient dv stmt num den))"
  by (auto simp: quotient_def not_isl_iff split: sum.splits)

lemmas calc_defs = calculate_financial_ratios_def ratios_body_def ratio_block_outcome

text \<open>
  C2, as the code has it: on an analyzer with no ratio recorded yet, an entry for a
  ratio exists after \<open>calculate_financial_ratios\<close> exactly when both of its line items
  are present with a most recent period, their division returns a value, and no
  block before it was left by an exception other than \<^verbatim>\<open>KeyError\<close>.
\<close>

theorem entry_iff_computed:
  assumes "financial_ratios a = []"
  shows "((''Gross Margin'' \<in> fst ` set (ratios_after dv a))
          = (\<exists>x y q. loc_iloc0 (income_stmt a) ''Gross Profit'' = Inr x
               \<and> loc_iloc0 (income_stmt a) ''Total Revenue'' = Inr y \<and> dv x y = Inr q))
       \<and> ((''Current Ratio'' \<in> fst ` set (ratios_after dv a))
          = ((\<exists>x y q. loc_iloc0 (balance_sheet a) ''Total Current Assets'' = Inr x
               \<and> loc_iloc0 (balance_sheet a) ''Total Current Liabilities'' = Inr y
               \<and> dv x y = Inr q)
             \<and> \<not> aborts (gross_margin dv a)))
       \<and> ((''Debt-to-Equity Ratio'' \<in> fst ` set (ratios_after dv a))
          = ((\<exists>x y q. loc_iloc0 (balance_sheet a) ''Total Liab'' = Inr x
               \<and> loc_iloc0 (balance_sheet a) ''Total Stockholder Equity'' = Inr y
               \<and> dv x y = Inr q)
             \<and> \<not> aborts (gross_margin dv a) \<and> \<not> aborts (current_ratio dv a)))"
proof -
  have gm: "(''Gross Margin'' \<in> fst ` set (ratios_after dv a)) = (\<not> isl (gross_margin dv a))"
    using assms
    by (cases "outcome (gross_margin dv a)"; cases "outcome (current_ratio dv a)";
        cases "outcome (debt_to_equity dv a)")
       (simp_all add: calc_defs isl_outcome keys_update)
  have cr: "(''Current Ratio'' \<in> fst ` set (ratios_after dv a))
      = (\<not> isl (current_ratio dv a) \<and> \<not> aborts (gross_margin dv a))"
    using assms
    by (cases "outcome (gross_margin dv a)"; cases "outcome (current_ratio dv a)";
        cases "outcome (debt_to_equity dv a)")
       (simp_all add: calc_defs isl_outcome aborts_outcome keys_update)
  have de: "(''Debt-to-Equity Ratio'' \<in> fst ` set (ratios_after dv a))
      = (\<not> isl (debt_to_equity dv a) \<and> \<not> aborts (gross_margin dv a)
         \<and> \<not> aborts (current_ratio dv a))"
    using assms
    by (cases "outcome (gross_margin dv a)"; cases "outcome (current_ratio dv a)";
        cases "outcome (debt_to_equity dv a)")
       (simp_all add: calc_defs isl_outcome aborts_outcome keys_update)
  show ?thesis
    unfolding quotient_returns_iff using gm cr de by simp
qed

lemmas eval_defs = calculate_financial_ratios_def ratios_body_def ratio_block_def
  quotient_def loc_iloc0_def loc_def iloc0_def is_KeyError_def is_Exception_def fetched_def

theorem entry_iff_computed_witness:
  "financial_ratios (fetched ''AAPL'' zero_revenue_income complete_balance) = []
   \<and> ''Gross Margin''
       \<notin> fst ` set (ratios_after truediv_py (fetched ''AAPL'' zero_revenue_income complete_balance))
   \<and> aborts (gross_margin truediv_py (fetched ''AAPL'' zero_revenue_income complete_balance))"
  using entry_iff_computed [of "fetched ''AAPL'' zero_revenue_income complete_balance" truediv_py]
  by (simp add: eval_defs truediv_py_def zero_revenue_income_def aborts_def)

text \<open>
  C2 as stated fails. With Python's numbers, a revenue of zero ends the method at the
  first block: the rows of the Current Ratio are present and its denominator is not
  zero, and there is no entry for it. With \<^verbatim>\<open>float64\<close> cells the same revenue gives an
  entry for Gross Margin though its denominator is zero.
\<close>

theorem entry_iff_counterexample:
  "loc_iloc0 (Some complete_balance) ''Total Current Assets'' = Inr 135405000000
   \<and> loc_iloc0 (Some complete_balance) ''Total Current Liabilities'' = Inr 153982000000
   \<and> (153982000000 :: real) \<noteq> 0
   \<and> ''Current Ratio''
       \<notin> fst ` set (ratios_after truediv_py (fetched ''AAPL'' zero_revenue_income complete_balance))
   \<and> loc_iloc0 (Some np_zero_revenue_income) ''Total Revenue'' = Inr (Fin 0)
   \<and> ''Gross Margin''
       \<in> fst ` set (ratios_after truediv_np (fetched ''AAPL'' np_zero_revenue_income Map.empty))"
  by (simp add: eval_defs truediv_py_def truediv_np_def zero_revenue_income_def
      complete_balance_def np_zero_revenue_income_def)

lemma row_missing_outcome:
  "row_missing stmt num den \<Longrightarrow> \<not> aborts (quotient dv stmt num den) \<Longrightarrow>
   outcome (quotient dv stmt num den) = Missing"
  by (auto simp: row_missing_def quotient_def loc_iloc0_def loc_def iloc0_def outcome_def
      aborts_def is_KeyError_def split: option.splits list.splits sum.splits)

lemma outcome_Value_iff: "(r = Inr q) = (outcome r = Value q)"
  by (cases r) (simp_all add: outcome_def)

text \<open>
  C3, as the code has it, ratio by ratio. When a required row of a ratio is missing and
  neither an earlier block nor the ratio's own block is left by an exception other than
  \<^verbatim>\<open>KeyError\<close> (a row without a period, a division error), the ratio's name is on
  \<^verbatim>\<open>missing_data\<close> exactly once, and the ratio, if it was not recorded before the call,
  is not recorded after it. A ratio whose division returns a value is recorded with that
  value when no earlier block is left by such an exception. What a later block does
  changes neither, and a missing row of another ratio never does.
\<close>

theorem missing_row_isolated:
  "(row_missing (income_stmt a) ''Gross Profit'' ''Total Revenue''
      \<and> \<not> aborts (gross_margin dv a) \<longrightarrow>
        count_list (missing_data dv a) ''Gross Margin'' = 1
        \<and> (''Gross Margin'' \<notin> fst ` set (financial_ratios a) \<longrightarrow>
             ''Gross Margin'' \<notin> fst ` set (ratios_after dv a)))
   \<and> (row_missing (balance_sheet a) ''Total Current Assets'' ''Total Current Liabilities''
      \<and> \<not> aborts (gross_margin dv a) \<and> \<not> aborts (current_ratio dv a) \<longrightarrow>
        count_list (missing_data dv a) ''Current Ratio'' = 1
        \<and> (''Current Ratio'' \<notin> fst ` set (financial_ratios a) \<longrightarrow>
             ''Current Ratio'' \<notin> fst ` set (ratios_after dv a)))
   \<and> (row_missing (balance_sheet a) ''Total Liab'' ''Total Stockholder Equity''
      \<and> \<not> aborts (gross_margin dv a) \<and> \<not> aborts (current_ratio dv a)
      \<and> \<not> aborts (debt_to_equity dv a) \<longrightarrow>
        count_list (missing_data dv a) ''Debt-to-Equity Ratio'' = 1
        \<and> (''Debt-to-Equity Ratio'' \<notin> fst ` set (financial_ratios a) \<longrightarrow>
             ''Debt-to-Equity Ratio'' \<notin> fst ` set (ratios_after dv a)))
   \<and> (\<forall>q. gross_margin dv a = Inr q \<longrightarrow>
        map_of (ratios_after dv a) ''Gross Margin'' = Some q)
   \<and> (\<forall>q. current_ratio dv a = Inr q \<and> \<not> aborts (gross_margin dv a) \<longrightarrow>
        map_of (ratios_after dv a) ''Current Ratio'' = Some q)
   \<and> (\<forall>q. debt_to_equity dv a = Inr q \<and> \<not> aborts (gross_margin dv a)
        \<and> \<not> aborts (current_ratio dv a) \<longrightarrow>
        map_of (ratios_after dv a) ''Debt-to-Equity Ratio'' = Some q)"
proof -
  note m = row_missing_outcome [where dv = dv]
  show ?thesis
    apply (cases "outcome (gross_margin dv a)"; cases "outcome (current_ratio dv a)";
        cases "outcome (debt_to_equity dv a)")
    apply (simp_all add: calc_defs aborts_outcome keys_update missing_data_def update_conv'
        outcome_Value_iff)
    apply (auto dest: m simp: aborts_outcome)
    done
qed

theorem missing_row_isolated_witness:
  "row_missing (Some no_current_assets) ''Total Current Assets'' ''Total Current Liabilities''
   \<and> ''Current Ratio''
       \<notin> fst ` set (ratios_after truediv_py (fetched ''AAPL'' complete_income no_current_assets))
   \<and> count_list (missing_data truediv_py (fetched ''AAPL'' complete_income no_current_assets))
       ''Current Ratio'' = 1
   \<and> map_of (ratios_after truediv_py (fetched ''AAPL'' complete_income no_current_assets))
       ''Gross Margin'' = Some (170782000000 / 394328000000)
   \<and> map_of (ratios_after truediv_py (fetched ''AAPL'' complete_income no_current_assets))
       ''Debt-to-Equity Ratio'' = Some (302083000000 / 50672000000)
   \<and> row_missing (Some no_gross_profit_income) ''Gross Profit'' ''Total Revenue''
   \<and> aborts (debt_to_equity truediv_py
               (fetched ''AAPL'' no_gross_profit_income zero_equity_balance))
   \<and> ''Gross Margin''
       \<notin> fst ` set (ratios_after truediv_py
                      (fetched ''AAPL'' no_gross_profit_income zero_equity_balance))
   \<and> count_list (missing_data truediv_py
                   (fetched ''AAPL'' no_gross_profit_income zero_equity_balance))
       ''Gross Margin'' = 1
   \<and> map_of (ratios_after truediv_py
               (fetched ''AAPL'' no_gross_profit_income zero_equity_balance))
       ''Current Ratio'' = Some (135405000000 / 153982000000)"
  using missing_row_isolated
    [of "fetched ''AAPL'' complete_income no_current_assets" truediv_py]
    missing_row_isolated
    [of "fetched ''AAPL'' no_gross_profit_income zero_equity_balance" truediv_py]
  by (simp add: quotient_def loc_iloc0_def loc_def iloc0_def is_KeyError_def fetched_def
      truediv_py_def complete_income_def no_current_assets_def
      no_gross_profit_income_def zero_equity_balance_def aborts_def row_missing_def)

text \<open>
  C3 as stated fails. With Python's numbers and a revenue of zero, the first block is
  left by \<^verbatim>\<open>ZeroDivisionError\<close>: the row of the current assets is missing and the name of
  the Current Ratio is never put on the list, and the Debt-to-Equity Ratio, whose rows
  are present with a denominator that is not zero, is not recorded. Whatever the
  division, the same happens when the rows of the income statement have no period. And
  when the revenue is missing and the gross profit, read first, has no period, the
  block of the Gross Margin itself is left by \<^verbatim>\<open>IndexError\<close> and its name is not put
  on the list.
\<close>

theorem missing_row_counterexample:
  "row_missing (Some no_current_assets) ''Total Current Assets'' ''Total Current Liabilities''
   \<and> count_list
        (missing_data truediv_py (fetched ''AAPL'' zero_revenue_income no_current_assets))
        ''Current Ratio'' = 0
   \<and> loc_iloc0 (Some no_current_assets) ''Total Liab'' = Inr 302083000000
   \<and> loc_iloc0 (Some no_current_assets) ''Total Stockholder Equity'' = Inr 50672000000
   \<and> (50672000000 :: real) \<noteq> 0
   \<and> ''Debt-to-Equity Ratio''
       \<notin> fst ` set (ratios_after truediv_py
                      (fetched ''AAPL'' zero_revenue_income no_current_assets))
   \<and> row_missing (Some (Map.empty :: float64 statement)) ''Total Current Assets''
        ''Total Current Liabilities''
   \<and> count_list (missing_data truediv_np (fetched ''AAPL'' np_no_period_income Map.empty))
        ''Current Ratio'' = 0
   \<and> row_missing (Some gross_profit_without_period) ''Gross Profit'' ''Total Revenue''
   \<and> count_list
        (missing_data truediv_py (fetched ''AAPL'' gross_profit_without_period complete_balance))
        ''Gross Margin'' = 0"
  by (simp add: eval_defs truediv_py_def zero_revenue_income_def no_current_assets_def
      np_no_period_income_def row_missing_def missing_data_def gross_profit_without_period_def
      complete_balance_def)

text \<open>
  C4, as the code has it: an exception of a division that is an \<^verbatim>\<open>Exception\<close> and not
  a \<^verbatim>\<open>KeyError\<close> passes the handler of its block, so the ratio's name is not put on
  \<^verbatim>\<open>missing_data\<close>, and is caught by the outer handler of the method: the method
  shows \<^verbatim>\<open>Error calculating financial ratios\<close> with the message and returns. This is
  stated for the first block that is left this way.
\<close>

theorem division_error_is_caught:
  assumes "is_Exception e" "\<not> is_KeyError e"
  shows "(gross_margin dv a = Inl e \<longrightarrow>
            calculate_financial_ratios dv a
              = (a, [St_error (''Error calculating financial ratios: '' @ msg e)], None)
            \<and> ''Gross Margin'' \<notin> set (missing_data dv a))
       \<and> (\<not> aborts (gross_margin dv a) \<and> current_ratio dv a = Inl e \<longrightarrow>
            snd (calculate_financial_ratios dv a)
              = ([St_error (''Error calculating financial ratios: '' @ msg e)], None)
            \<and> ''Current Ratio'' \<notin> set (missing_data dv a))
       \<and> (\<not> aborts (gross_margin dv a) \<and> \<not> aborts (current_ratio dv a)
            \<and> debt_to_equity dv a = Inl e \<longrightarrow>
            snd (calculate_financial_ratios dv a)
              = ([St_error (''Error calculating financial ratios: '' @ msg e)], None)
            \<and> ''Debt-to-Equity Ratio'' \<notin> set (missing_data dv a))"
proof -
  have o: "outcome (Inl e :: exn + 'a) = Abort e"
    using assms by (simp add: outcome_def)
  show ?thesis
    using assms
    apply (cases "outcome (gross_margin dv a)"; cases "outcome (current_ratio dv a)";
        cases "outcome (debt_to_equity dv a)")
    apply (auto simp add: calc_defs aborts_outcome missing_data_def o)
    done
qed

theorem division_error_is_caught_witness:
  "calculate_financial_ratios truediv_py (fetched ''AAPL'' zero_revenue_income complete_balance)
     = (fetched ''AAPL'' zero_revenue_income complete_balance,
        [St_error ''Error calculating financial ratios: float division by zero''], None)
   \<and> snd (calculate_financial_ratios truediv_py
            (fetched ''AAPL'' complete_income zero_liabilities_balance))
     = ([St_error ''Error calculating financial ratios: float division by zero''], None)
   \<and> snd (calculate_financial_ratios truediv_py
            (fetched ''AAPL'' complete_income zero_equity_balance))
     = ([St_error ''Error calculating financial ratios: float division by zero''], None)"
  using
    division_error_is_caught [of "Exn ZeroDivisionError ''float division by zero''"
      truediv_py "fetched ''AAPL'' zero_revenue_income complete_balance"]
    division_error_is_caught [of "Exn ZeroDivisionError ''float division by zero''"
      truediv_py "fetched ''AAPL'' complete_income zero_liabilities_balance"]
    division_error_is_caught [of "Exn ZeroDivisionError ''float division by zero''"
      truediv_py "fetched ''AAPL'' complete_income zero_equity_balance"]
  by (simp add: quotient_def loc_iloc0_def loc_def iloc0_def is_KeyError_def is_Exception_def
      fetched_def truediv_py_def zero_revenue_income_def complete_income_def
      complete_balance_def zero_liabilities_balance_def zero_equity_balance_def aborts_def)

text \<open>
  C4 as stated fails: with the rows present and a revenue of zero, Python's division
  raises, and no exception leaves the method; with \<^verbatim>\<open>float64\<close> cells the division
  raises nothing.
\<close>

theorem division_error_counterexample:
  "gross_margin truediv_py (fetched ''AAPL'' zero_revenue_income complete_balance)
     = Inl (Exn ZeroDivisionError ''float division by zero'')
   \<and> snd (snd (calculate_financial_ratios truediv_py
                 (fetched ''AAPL'' zero_revenue_income complete_balance))) = None
   \<and> gross_margin truediv_np (fetched ''AAPL'' np_zero_revenue_income Map.empty) = Inr PInf
   \<and> snd (snd (calculate_financial_ratios truediv_np
                 (fetched ''AAPL'' np_zero_revenue_income Map.empty))) = None"
  by (simp add: eval_defs truediv_py_def truediv_np_def zero_revenue_income_def
      complete_balance_def np_zero_revenue_income_def)

section \<open>Properties of a run\<close>

lemmas char_eval = char_of_def bit_Suc_0_iff

lemma fetch_events:
  "set (fst (snd (fetch_financial_statements p a)))
     \<subseteq> range (Yf_read (ticker a)) \<union> range St_error"
  by (auto simp: fetch_financial_statements_def fetch_handler_def Let_def split: sum.splits)

lemma calculate_events:
  "set (fst (snd (calculate_financial_ratios dv a))) \<subseteq> range St_warning \<union> range St_error"
  by (auto simp: calculate_financial_ratios_def split: body_result.splits)

lemma generate_events:
  "set (fst (generate_financial_report fmt create a)) \<subseteq> range Chat_create \<union> range St_error"
  by (auto simp: generate_financial_report_def Let_def report_handler_def
      split: sum.splits if_splits)

lemma fallback_events:
  "set (fst (generate_report_with_available_data create a))
     \<subseteq> range Chat_create \<union> range St_error"
  by (auto simp: generate_report_with_available_data_def Let_def report_handler_def
      split: sum.splits if_splits)







lemma count_errors: "count_list (map St_error msgs) (Invoked x) = 0"
  by (induction msgs) simp_all



text \<open>
  C8: with an empty ticker field the run shows the title, the header of the sidebar and
  the field, and ends: no analyzer is made, nothing is fetched, no message of error or
  of any other kind is shown.
\<close>

theorem empty_ticker_idle:
  "main (env\<lparr>text_input := []\<rparr>)
     = ([St_title ''AI-Powered Financial Statement Analyzer and Report Generator'',
         St_sidebar_header ''User Input'',
         St_sidebar_text_input ''Stock Ticker Symbol'' ''AAPL''], None)"
  by (simp add: main_def upper_def)

section \<open>Properties of the download link, the trace and the strings\<close>

lemma of_char_char_of_small: "k < 256 \<Longrightarrow> of_char (char_of (k::nat)) = k"
  by simp
lemma b64index_b64char: "n < 64 \<Longrightarrow> b64index (b64char n) = Some n"
proof -
  assume n: "n < 64"
  consider "n < 26" | "26 \<le> n" "n < 52" | "52 \<le> n" "n < 62" | "n = 62" | "n = 63"
    using n by linarith
  then show ?thesis
  proof cases
    case 1 then show ?thesis by (simp add: b64index_def b64char_def Let_def)
  next
    case 2 then show ?thesis by (simp add: b64index_def b64char_def Let_def)
  next
    case 3 then show ?thesis by (simp add: b64index_def b64char_def Let_def) linarith
  next
    case 4 then show ?thesis by (simp add: b64index_def b64char_def Let_def)
  next
    case 5 then show ?thesis by (simp add: b64index_def b64char_def Let_def)
  qed
qed
lemma b64char_range:
  "n < 64 \<Longrightarrow> (of_char (b64char n) :: nat) \<in> {43, 47} \<union> {48..57} \<union> {65..90} \<union> {97..122}"
  by (simp add: b64char_def) linarith
lemma b64char_neq_pad: "n < 64 \<Longrightarrow> b64char n \<noteq> CHR ''=''"
proof
  assume "n < 64" "b64char n = CHR ''=''"
  then have "(61::nat) \<in> {43, 47} \<union> {48..57} \<union> {65..90} \<union> {97..122}"
    using b64char_range [of n] by simp
  then show False by simp
qed
lemma b64char_neq_quote: "n < 64 \<Longrightarrow> b64char n \<noteq> CHR 0x22"
proof
  assume "n < 64" "b64char n = CHR 0x22"
  then have "(34::nat) \<in> {43, 47} \<union> {48..57} \<union> {65..90} \<union> {97..122}"
    using b64char_range [of n] by simp
  then show False by simp
qed
lemma sextet_bounds:
  fixes x y z :: nat
  assumes "x < 256" "y < 256" "z < 256"
  shows "x div 4 < 64" "x mod 4 * 16 + y div 16 < 64" "y mod 16 * 4 + z div 64 < 64"
    "z mod 64 < 64" "x mod 4 * 16 < 64" "y mod 16 * 4 < 64"
  using assms by simp_all
lemma regroup:
  fixes x y z :: nat
  assumes "x < 256" "y < 256" "z < 256"
  shows "x div 4 * 4 + (x mod 4 * 16 + y div 16) div 16 = x"
    "(x mod 4 * 16 + y div 16) mod 16 * 16 + (y mod 16 * 4 + z div 64) div 4 = y"
    "(y mod 16 * 4 + z div 64) mod 4 * 64 + z mod 64 = z"
    "x div 4 * 4 + (x mod 4 * 16) div 16 = x"
    "(x mod 4 * 16 + y div 16) mod 16 * 16 + (y mod 16 * 4) div 4 = y"
  using assms by simp_all

lemma of_char_lt: "(of_char (c::char) :: nat) < 256"
proof -
  have "(of_char c :: nat) mod 256 < 256" by simp
  then show ?thesis by (simp only: of_char_mod_256)
qed

lemma char_of_of_char_nat: "char_of (of_char c :: nat) = c"
  by simp


lemma decode_pad2:
  "b64index c1 = Some i \<Longrightarrow> b64index c2 = Some j \<Longrightarrow> char_of (i * 4 + j div 16) = a \<Longrightarrow>
   b64decode [c1, c2, CHR ''='', CHR ''=''] = Some [a]"
  by simp

lemma decode_pad1:
  "b64index c1 = Some i \<Longrightarrow> b64index c2 = Some j \<Longrightarrow> b64index c3 = Some k \<Longrightarrow>
   c3 \<noteq> CHR ''='' \<Longrightarrow> char_of (i * 4 + j div 16) = a \<Longrightarrow>
   char_of (j mod 16 * 16 + k div 4) = b \<Longrightarrow>
   b64decode [c1, c2, c3, CHR ''=''] = Some [a, b]"
  by simp

lemma decode_full:
  "b64index c1 = Some i \<Longrightarrow> b64index c2 = Some j \<Longrightarrow> b64index c3 = Some k \<Longrightarrow>
   b64index c4 = Some l \<Longrightarrow> c3 \<noteq> CHR ''='' \<Longrightarrow> c4 \<noteq> CHR ''='' \<Longrightarrow>
   char_of (i * 4 + j div 16) = a \<Longrightarrow> char_of (j mod 16 * 16 + k div 4) = b \<Longrightarrow>
   char_of (k mod 4 * 64 + l) = c \<Longrightarrow>
   b64decode (c1 # c2 # c3 # c4 # rest)
     = (case b64decode rest of None \<Rightarrow> None | Some bs \<Rightarrow> Some (a # b # c # bs))"
  by (cases "b64decode rest") simp_all

lemma decode_one:
  "b64decode [b64char (of_char a div 4), b64char (of_char a mod 4 * 16), CHR ''='', CHR ''='']
     = Some [a]"
proof -
  note b = sextet_bounds [of "of_char a" "of_char a" "of_char a",
      OF of_char_lt of_char_lt of_char_lt]
  note r = regroup [of "of_char a" "of_char a" "of_char a", OF of_char_lt of_char_lt of_char_lt]
  show ?thesis
  proof (rule decode_pad2 [where i = "of_char a div 4" and j = "of_char a mod 4 * 16"])
    show "b64index (b64char (of_char a div 4)) = Some (of_char a div 4)"
      by (rule b64index_b64char) (rule b(1))
    show "b64index (b64char (of_char a mod 4 * 16)) = Some (of_char a mod 4 * 16)"
      by (rule b64index_b64char) (rule b(5))
    show "char_of (of_char a div 4 * 4 + of_char a mod 4 * 16 div 16 :: nat) = a"
      by (simp only: r(4) char_of_of_char_nat)
  qed
qed

lemma decode_two:
  "b64decode [b64char (of_char a div 4), b64char (of_char a mod 4 * 16 + of_char b div 16),
              b64char (of_char b mod 16 * 4), CHR ''='']
     = Some [a, b]"
proof -
  note b = sextet_bounds [of "of_char a" "of_char b" "of_char b",
      OF of_char_lt of_char_lt of_char_lt]
  note r = regroup [of "of_char a" "of_char b" "of_char b", OF of_char_lt of_char_lt of_char_lt]
  show ?thesis
  proof (rule decode_pad1 [where i = "of_char a div 4"
        and j = "of_char a mod 4 * 16 + of_char b div 16" and k = "of_char b mod 16 * 4"])
    show "b64index (b64char (of_char a div 4)) = Some (of_char a div 4)"
      by (rule b64index_b64char) (rule b(1))
    show "b64index (b64char (of_char a mod 4 * 16 + of_char b div 16))
        = Some (of_char a mod 4 * 16 + of_char b div 16)"
      by (rule b64index_b64char) (rule b(2))
    show "b64index (b64char (of_char b mod 16 * 4)) = Some (of_char b mod 16 * 4)"
      by (rule b64index_b64char) (rule b(6))
    show "b64char (of_char b mod 16 * 4) \<noteq> CHR ''=''"
      by (rule b64char_neq_pad) (rule b(6))
    show "char_of (of_char a div 4 * 4 + (of_char a mod 4 * 16 + of_char b div 16) div 16 :: nat)
        = a"
      by (simp only: r(1) char_of_of_char_nat)
    show "char_of ((of_char a mod 4 * 16 + of_char b div 16) mod 16 * 16
        + of_char b mod 16 * 4 div 4 :: nat) = b"
      by (simp only: r(5) char_of_of_char_nat)
  qed
qed

lemma decode_three:
  "b64decode (b64char (of_char a div 4) # b64char (of_char a mod 4 * 16 + of_char b div 16)
              # b64char (of_char b mod 16 * 4 + of_char c div 64) # b64char (of_char c mod 64)
              # rest)
     = (case b64decode rest of None \<Rightarrow> None | Some bs \<Rightarrow> Some (a # b # c # bs))"
proof -
  note b = sextet_bounds [of "of_char a" "of_char b" "of_char c",
      OF of_char_lt of_char_lt of_char_lt]
  note r = regroup [of "of_char a" "of_char b" "of_char c", OF of_char_lt of_char_lt of_char_lt]
  show ?thesis
  proof (rule decode_full [where i = "of_char a div 4"
        and j = "of_char a mod 4 * 16 + of_char b div 16"
        and k = "of_char b mod 16 * 4 + of_char c div 64" and l = "of_char c mod 64"])
    show "b64index (b64char (of_char a div 4)) = Some (of_char a div 4)"
      by (rule b64index_b64char) (rule b(1))
    show "b64index (b64char (of_char a mod 4 * 16 + of_char b div 16))
        = Some (of_char a mod 4 * 16 + of_char b div 16)"
      by (rule b64index_b64char) (rule b(2))
    show "b64index (b64char (of_char b mod 16 * 4 + of_char c div 64))
        = Some (of_char b mod 16 * 4 + of_char c div 64)"
      by (rule b64index_b64char) (rule b(3))
    show "b64index (b64char (of_char c mod 64)) = Some (of_char c mod 64)"
      by (rule b64index_b64char) (rule b(4))
    show "b64char (of_char b mod 16 * 4 + of_char c div 64) \<noteq> CHR ''=''"
      by (rule b64char_neq_pad) (rule b(3))
    show "b64char (of_char c mod 64) \<noteq> CHR ''=''"
      by (rule b64char_neq_pad) (rule b(4))
    show "char_of (of_char a div 4 * 4 + (of_char a mod 4 * 16 + of_char b div 16) div 16 :: nat)
        = a"
      by (simp only: r(1) char_of_of_char_nat)
    show "char_of ((of_char a mod 4 * 16 + of_char b div 16) mod 16 * 16
        + (of_char b mod 16 * 4 + of_char c div 64) div 4 :: nat) = b"
      by (simp only: r(2) char_of_of_char_nat)
    show "char_of ((of_char b mod 16 * 4 + of_char c div 64) mod 4 * 64 + of_char c mod 64 :: nat)
        = c"
      by (simp only: r(3) char_of_of_char_nat)
  qed
qed

lemma decode_encode: "b64decode (b64encode bs) = Some bs"
proof (induction bs rule: b64encode.induct)
  case 1
  show ?case by simp
next
  case (2 a)
  show ?case by (simp only: b64encode.simps Let_def decode_one)
next
  case (3 a b)
  show ?case by (simp only: b64encode.simps Let_def decode_two)
next
  case (4 a b c rest)
  then show ?case
    by (simp only: b64encode.simps Let_def append_Cons append_Nil decode_three option.case)
qed

lemma encode_no_quote: "\<forall>c \<in> set (b64encode bs). c \<noteq> CHR 0x22"
proof (induction bs rule: b64encode.induct)
  case 1
  show ?case by simp
next
  case (2 a)
  note b = sextet_bounds [of "of_char a" "of_char a" "of_char a",
      OF of_char_lt of_char_lt of_char_lt]
  show ?case
    by (simp add: Let_def b64char_neq_quote [OF b(1)] b64char_neq_quote [OF b(5)])
next
  case (3 a b)
  note b = sextet_bounds [of "of_char a" "of_char b" "of_char b",
      OF of_char_lt of_char_lt of_char_lt]
  show ?case
    by (simp add: Let_def b64char_neq_quote [OF b(1)] b64char_neq_quote [OF b(2)]
        b64char_neq_quote [OF b(6)])
next
  case (4 a b c rest)
  note b = sextet_bounds [of "of_char a" "of_char b" "of_char c",
      OF of_char_lt of_char_lt of_char_lt]
  show ?case
    using 4
    by (simp add: Let_def b64char_neq_quote [OF b(1)] b64char_neq_quote [OF b(2)]
        b64char_neq_quote [OF b(3)] b64char_neq_quote [OF b(4)])
qed

lemma payload_of_link:
  "href_payload (get_text_download_link text filename) = b64encode text"
proof -
  have "takeWhile (\<lambda>c. c \<noteq> CHR 0x22) (b64encode text @ link_middle @ filename @ link_suffix)
      = b64encode text @ takeWhile (\<lambda>c. c \<noteq> CHR 0x22) (link_middle @ filename @ link_suffix)"
    using encode_no_quote [of "text"] by (intro takeWhile_append2) simp
  then show ?thesis
    by (simp add: href_payload_def get_text_download_link_def bytes_decode_def str_encode_def
        link_middle_def)
qed

lemma download_of_link:
  "href_download (get_text_download_link text filename) = filename"
  by (simp add: href_download_def payload_of_link)
     (simp add: get_text_download_link_def bytes_decode_def str_encode_def)

lemma generate_no_page_event [simp]:
  "St_markdown m \<notin> set (fst (generate_financial_report fmt create a))"
  "St_write r \<notin> set (fst (generate_financial_report fmt create a))"
  "Yf_Ticker t \<notin> set (fst (generate_financial_report fmt create a))"
  "Yf_read t x \<notin> set (fst (generate_financial_report fmt create a))"
  using generate_events [of fmt create a] by auto

lemma fallback_no_page_event [simp]:
  "St_markdown m \<notin> set (fst (generate_report_with_available_data create a))"
  "St_write r \<notin> set (fst (generate_report_with_available_data create a))"
  "Yf_Ticker t \<notin> set (fst (generate_report_with_available_data create a))"
  "Yf_read t x \<notin> set (fst (generate_report_with_available_data create a))"
  using fallback_events [of create a] by auto

lemma calculate_no_page_event [simp]:
  "St_markdown m \<notin> set (fst (snd (calculate_financial_ratios dv a)))"
  "St_write r \<notin> set (fst (snd (calculate_financial_ratios dv a)))"
  "Yf_Ticker t \<notin> set (fst (snd (calculate_financial_ratios dv a)))"
  "Yf_read t x \<notin> set (fst (snd (calculate_financial_ratios dv a)))"
  using calculate_events [of dv a] by auto

lemma fetch_no_page_event [simp]:
  "St_markdown m \<notin> set (fst (snd (fetch_financial_statements p a)))"
  "St_write r \<notin> set (fst (snd (fetch_financial_statements p a)))"
  "Yf_Ticker t \<notin> set (fst (snd (fetch_financial_statements p a)))"
  using fetch_events [of p a] by auto

lemma fetch_reads:
  "Yf_read t x \<in> set (fst (snd (fetch_financial_statements p a))) \<Longrightarrow> t = ticker a"
  using fetch_events [of p a] by auto

lemma ratios_branch_markdown:
  "(St_markdown m \<in> set (fst (main_ratios_branch env t a)))
     = (\<exists>r. snd (generate_financial_report (format_2f env) (chat_create env) a) = Inr (Some r)
          \<and> r \<noteq> [] \<and> m = get_text_download_link r (t @ ''_financial_report.txt''))"
  by (cases "snd (generate_financial_report (format_2f env) (chat_create env) a)")
     (auto simp: main_ratios_branch_def Let_def truthy_def case_prod_beta split: option.splits)

lemma ratios_branch_write:
  "(St_write r \<in> set (fst (main_ratios_branch env t a)))
     = (snd (generate_financial_report (format_2f env) (chat_create env) a) = Inr (Some r)
          \<and> r \<noteq> [])"
  by (cases "snd (generate_financial_report (format_2f env) (chat_create env) a)")
     (auto simp: main_ratios_branch_def Let_def truthy_def case_prod_beta split: option.splits)

lemma fallback_branch_markdown:
  "St_markdown m \<notin> set (fst (main_fallback_branch env a))"
  by (cases "snd (generate_report_with_available_data (chat_create env) a)")
     (auto simp: main_fallback_branch_def Let_def truthy_def case_prod_beta split: option.splits)

lemma fallback_branch_write:
  "(St_write r \<in> set (fst (main_fallback_branch env a)))
     = (snd (generate_report_with_available_data (chat_create env) a) = Inr (Some r)
          \<and> r \<noteq> [])"
  by (cases "snd (generate_report_with_available_data (chat_create env) a)")
     (auto simp: main_fallback_branch_def Let_def truthy_def case_prod_beta split: option.splits)

lemma branch_no_yf [simp]:
  "Yf_Ticker u \<notin> set (fst (main_ratios_branch env t a))"
  "Yf_read u x \<notin> set (fst (main_ratios_branch env t a))"
  "Yf_Ticker u \<notin> set (fst (main_fallback_branch env a))"
  "Yf_read u x \<notin> set (fst (main_fallback_branch env a))"
  by (cases "snd (generate_financial_report (format_2f env) (chat_create env) a)";
      cases "snd (generate_report_with_available_data (chat_create env) a)";
      simp add: main_ratios_branch_def main_fallback_branch_def Let_def case_prod_beta)+

text \<open>Where a run of \<^verbatim>\<open>main\<close> shows a report and a link.\<close>

lemma main_markdown:
  "(St_markdown m \<in> set (fst (main env)))
     = (upper (text_input env) \<noteq> [] \<and> snd (snd (fetch_of env)) = Inr True
        \<and> snd (snd (calc_of env)) = None \<and> financial_ratios (fst (calc_of env)) \<noteq> []
        \<and> St_markdown m
            \<in> set (fst (main_ratios_branch env (upper (text_input env)) (fst (calc_of env)))))"
proof (cases "upper (text_input env) = []")
  case True
  then show ?thesis by (simp add: main_def Let_def)
next
  case t: False
  show ?thesis
  proof (cases "snd (snd (fetch_of env))")
    case (Inl e)
    then show ?thesis
      using t by (simp add: main_def Let_def case_prod_beta)
  next
    case (Inr ok)
    show ?thesis
    proof (cases ok)
      case False
      then show ?thesis
        using t Inr by (simp add: main_def Let_def case_prod_beta)
    next
      case True
      show ?thesis
      proof (cases "snd (snd (calc_of env))")
        case (Some e)
        then show ?thesis
          using t Inr True by (simp add: main_def Let_def case_prod_beta)
      next
        case None
        then show ?thesis
          using t Inr True
          by (simp add: main_def Let_def case_prod_beta fallback_branch_markdown)
      qed
    qed
  qed
qed

lemma main_write:
  "(St_write r \<in> set (fst (main env)))
     = (upper (text_input env) \<noteq> [] \<and> snd (snd (fetch_of env)) = Inr True
        \<and> snd (snd (calc_of env)) = None
        \<and> (if financial_ratios (fst (calc_of env)) \<noteq> []
            then St_write r
              \<in> set (fst (main_ratios_branch env (upper (text_input env)) (fst (calc_of env))))
            else St_write r \<in> set (fst (main_fallback_branch env (fst (calc_of env))))))"
proof (cases "upper (text_input env) = []")
  case True
  then show ?thesis by (simp add: main_def Let_def)
next
  case t: False
  show ?thesis
  proof (cases "snd (snd (fetch_of env))")
    case (Inl e)
    then show ?thesis
      using t by (simp add: main_def Let_def case_prod_beta)
  next
    case (Inr ok)
    show ?thesis
    proof (cases ok)
      case False
      then show ?thesis
        using t Inr by (simp add: main_def Let_def case_prod_beta)
    next
      case True
      show ?thesis
      proof (cases "snd (snd (calc_of env))")
        case (Some e)
        then show ?thesis
          using t Inr True by (simp add: main_def Let_def case_prod_beta)
      next
        case None
        then show ?thesis
          using t Inr True
          by (simp add: main_def Let_def case_prod_beta)
      qed
    qed
  qed
qed

lemma main_yf:
  "(Yf_Ticker u \<in> set (fst (main env)) \<longrightarrow> u = upper (text_input env))
   \<and> (Yf_read u x \<in> set (fst (main env)) \<longrightarrow> u = upper (text_input env))"
proof (cases "upper (text_input env) = []")
  case True
  then show ?thesis by (simp add: main_def Let_def)
next
  case t: False
  have r: "Yf_read u x \<in> set (fst (snd (fetch_of env))) \<Longrightarrow> u = upper (text_input env)"
    using fetch_reads [of u x "stock env" "FinancialAnalyzer (upper (text_input env))"]
    by (simp add: FinancialAnalyzer_def)
  show ?thesis
  proof (cases "snd (snd (fetch_of env))")
    case (Inl e)
    then show ?thesis
      using t r by (auto simp add: main_def Let_def case_prod_beta)
  next
    case (Inr ok)
    show ?thesis
    proof (cases ok)
      case False
      then show ?thesis
        using t Inr r by (auto simp add: main_def Let_def case_prod_beta)
    next
      case True
      show ?thesis
      proof (cases "snd (snd (calc_of env))")
        case (Some e)
        then show ?thesis
          using t Inr True r by (auto simp add: main_def Let_def case_prod_beta)
      next
        case None
        then show ?thesis
          using t Inr True r
          by (auto simp add: main_def Let_def case_prod_beta)
      qed
    qed
  qed
qed


lemma fetch_ticker: "ticker (fst (fetch_financial_statements p a)) = ticker a"
  by (simp add: fetch_financial_statements_def fetch_handler_def Let_def split: sum.splits)

lemma calculate_ticker: "ticker (fst (calculate_financial_ratios dv a)) = ticker a"
  by (simp add: calculate_financial_ratios_def split: body_result.splits)

lemma upper_char_not_lower:
  "\<not> (97 \<le> (of_char (upper_char c) :: nat) \<and> (of_char (upper_char c) :: nat) \<le> 122)"
proof (cases "97 \<le> (of_char c :: nat) \<and> (of_char c :: nat) \<le> 122")
  case True
  have "(of_char c - 32 :: nat) \<le> of_char c" by simp
  then have "(of_char c - 32 :: nat) < 256" using of_char_lt [of c] by (rule le_less_trans)
  then have "(of_char (char_of (of_char c - 32 :: nat)) :: nat) = of_char c - 32"
    by (rule of_char_char_of_small)
  then show ?thesis using True by (simp add: upper_char_def Let_def del: of_char_of) arith
next
  case False
  then show ?thesis by (auto simp: upper_char_def Let_def)
qed

lemma last_dropWhile: "dropWhile P xs \<noteq> [] \<Longrightarrow> last (dropWhile P xs) = last xs"
  by (induction xs) auto

lemma rev_dropWhile_rev:
  "u = rev (dropWhile P (rev u)) @ rev (takeWhile P (rev u))"
proof -
  have "rev (takeWhile P (rev u) @ dropWhile P (rev u)) = rev (rev u)"
    by (simp only: takeWhile_dropWhile_id)
  then show ?thesis by (simp only: rev_append rev_rev_ident)
qed

lemma rev_dropWhile_rev_edges:
  assumes "rev (dropWhile P (rev u)) \<noteq> []"
  shows "\<not> P (last (rev (dropWhile P (rev u)))) \<and> hd (rev (dropWhile P (rev u))) = hd u"
proof -
  let ?w = "dropWhile P (rev u)"
  have w: "?w \<noteq> []" using assms by (simp only: rev_is_Nil_conv not_False_eq_True)
  have u: "u \<noteq> []"
  proof
    assume "u = []"
    then have "?w = []" by (simp only: rev.simps dropWhile.simps)
    with w show False ..
  qed
  have "last (rev ?w) = hd ?w" using w by (simp only: last_rev)
  moreover have "\<not> P (hd ?w)" using w by (rule hd_dropWhile)
  moreover have "hd (rev ?w) = last ?w" using w by (simp only: hd_rev)
  moreover have "last ?w = last (rev u)" using w by (rule last_dropWhile)
  moreover have "last (rev u) = hd u" using u by (simp only: last_rev)
  ultimately show ?thesis by simp
qed

lemma strip_edges:
  assumes "strip t \<noteq> []"
  shows "\<not> isspace (hd (strip t)) \<and> \<not> isspace (last (strip t))"
proof -
  let ?u = "dropWhile isspace t"
  have s: "strip t = rev (dropWhile isspace (rev ?u))" by (simp only: strip_def)
  have n: "rev (dropWhile isspace (rev ?u)) \<noteq> []" using assms unfolding s by assumption
  have e: "\<not> isspace (last (strip t)) \<and> hd (strip t) = hd ?u"
    unfolding s by (rule rev_dropWhile_rev_edges [OF n])
  have "?u \<noteq> []"
  proof
    assume "?u = []"
    then have "strip t = []" by (simp only: s rev.simps dropWhile.simps)
    with assms show False ..
  qed
  then have "\<not> isspace (hd ?u)" by (rule hd_dropWhile)
  then show ?thesis using e by simp
qed

lemma strip_parts:
  "\<exists>pre post. t = pre @ strip t @ post \<and> (\<forall>c \<in> set pre. isspace c)
     \<and> (\<forall>c \<in> set post. isspace c)"
proof -
  let ?u = "dropWhile isspace t"
  let ?post = "rev (takeWhile isspace (rev ?u))"
  have u: "?u = strip t @ ?post"
    using rev_dropWhile_rev [of ?u isspace] by (simp only: strip_def)
  have "takeWhile isspace t @ ?u = t" by (rule takeWhile_dropWhile_id)
  then have "t = takeWhile isspace t @ strip t @ ?post" using u by (simp only:)
  moreover have "\<forall>c \<in> set (takeWhile isspace t). isspace c"
    by (auto dest: set_takeWhileD)
  moreover have "\<forall>c \<in> set ?post. isspace c"
    by (auto dest: set_takeWhileD)
  ultimately show ?thesis by (intro exI [of _ "takeWhile isspace t"] exI [of _ ?post]) simp
qed

lemma first_content_text:
  "first_content resp = Inr r \<Longrightarrow> \<exists>t rest. choices resp = Some t # rest \<and> r = strip t"
  by (auto simp: first_content_def split: list.splits option.splits)

lemma report_handler_result: "snd (report_handler evs e) \<noteq> Inr (Some r)"
  by (simp add: report_handler_def)

lemma generate_result:
  assumes "snd (generate_financial_report fmt create a) = Inr (Some r)"
  shows "\<exists>t. r = strip t"
proof (cases "financial_ratios a = []")
  case True
  then show ?thesis using assms by (simp add: generate_financial_report_def)
next
  case False
  show ?thesis
  proof (cases "ratios_text fmt [] (financial_ratios a)")
    case (Inl e)
    then show ?thesis
      using assms False by (simp add: generate_financial_report_def report_handler_result)
  next
    case rt: (Inr rt)
    show ?thesis
    proof (cases "create (ratio_request (ratio_prompt (ticker a) rt))")
      case (Inl e)
      then show ?thesis
        using assms False rt
        by (simp add: generate_financial_report_def Let_def report_handler_result)
    next
      case resp: (Inr resp)
      show ?thesis
      proof (cases "first_content resp")
        case (Inl e)
        then show ?thesis
          using assms False rt resp
          by (simp add: generate_financial_report_def Let_def report_handler_result)
      next
        case (Inr rep)
        then have "rep = r"
          using assms False rt resp by (simp add: generate_financial_report_def Let_def)
        then show ?thesis using first_content_text [OF Inr] by auto
      qed
    qed
  qed
qed

lemma fallback_result:
  assumes "snd (generate_report_with_available_data create a) = Inr (Some r)"
  shows "\<exists>t. r = strip t"
proof (cases "create (fallback_request (fallback_prompt (ticker a)))")
  case (Inl e)
  then show ?thesis
    using assms
    by (simp add: generate_report_with_available_data_def Let_def report_handler_result)
next
  case resp: (Inr resp)
  show ?thesis
  proof (cases "first_content resp")
    case (Inl e)
    then show ?thesis
      using assms resp
      by (simp add: generate_report_with_available_data_def Let_def report_handler_result)
  next
    case (Inr rep)
    then have "rep = r"
      using assms resp by (simp add: generate_report_with_available_data_def Let_def)
    then show ?thesis using first_content_text [OF Inr] by auto
  qed
qed

lemma main_write_stripped:
  assumes "St_write r \<in> set (fst (main env))"
  shows "r \<noteq> [] \<and> (\<exists>t. r = strip t)"
proof (cases "financial_ratios (fst (calc_of env)) = []")
  case True
  then have "St_write r \<in> set (fst (main_fallback_branch env (fst (calc_of env))))"
    using assms by (simp add: main_write)
  then have "snd (generate_report_with_available_data (chat_create env) (fst (calc_of env)))
      = Inr (Some r) \<and> r \<noteq> []"
    by (simp add: fallback_branch_write)
  then show ?thesis using fallback_result by blast
next
  case False
  then have "St_write r
      \<in> set (fst (main_ratios_branch env (upper (text_input env)) (fst (calc_of env))))"
    using assms by (simp add: main_write)
  then have "snd (generate_financial_report (format_2f env) (chat_create env)
      (fst (calc_of env))) = Inr (Some r) \<and> r \<noteq> []"
    by (simp add: ratios_branch_write)
  then show ?thesis using generate_result by blast
qed

lemma main_link:
  assumes "St_markdown m \<in> set (fst (main env))"
  shows "\<exists>r. St_write r \<in> set (fst (main env))
     \<and> m = get_text_download_link r (upper (text_input env) @ ''_financial_report.txt'')"
proof -
  have c: "upper (text_input env) \<noteq> [] \<and> snd (snd (fetch_of env)) = Inr True
      \<and> snd (snd (calc_of env)) = None \<and> financial_ratios (fst (calc_of env)) \<noteq> []"
    and b: "St_markdown m
      \<in> set (fst (main_ratios_branch env (upper (text_input env)) (fst (calc_of env))))"
    using assms by (simp_all add: main_markdown)
  from b obtain r where r: "snd (generate_financial_report (format_2f env) (chat_create env)
      (fst (calc_of env))) = Inr (Some r) \<and> r \<noteq> []"
    and m: "m = get_text_download_link r (upper (text_input env) @ ''_financial_report.txt'')"
    by (auto simp add: ratios_branch_markdown)
  from r have "St_write r
      \<in> set (fst (main_ratios_branch env (upper (text_input env)) (fst (calc_of env))))"
    by (simp add: ratios_branch_write)
  then have "St_write r \<in> set (fst (main env))"
    using c by (simp add: main_write)
  then show ?thesis using m by blast
qed



lemma ratios_text_py: "\<exists>rt. ratios_text format_2f_py acc items = Inr rt"
proof (induction items arbitrary: acc)
  case Nil
  show ?case by simp
next
  case (Cons p items)
  obtain n v where p: "p = (n, v)" by (cases p)
  obtain s where s: "format_2f_py v = Inr s" by (simp add: format_2f_py_def Let_def)
  show ?case using Cons.IH [of "acc @ n @ '': '' @ s @ [CHR 0x0A]"] p s by simp
qed





section \<open>The examples\<close>

lemma fetch_first_read:
  "Yf_read (ticker a) ''financials'' \<in> set (fst (snd (fetch_financial_statements p a)))"
  by (simp add: fetch_financial_statements_def fetch_handler_def Let_def split: sum.splits)

lemma main_starts:
  assumes "upper (text_input env) \<noteq> []"
  shows "Yf_Ticker (upper (text_input env)) \<in> set (fst (main env))
    \<and> Yf_read (upper (text_input env)) ''financials'' \<in> set (fst (main env))"
proof -
  have r: "Yf_read (upper (text_input env)) ''financials'' \<in> set (fst (snd (fetch_of env)))"
    using fetch_first_read [of "FinancialAnalyzer (upper (text_input env))" "stock env"]
    by (simp add: FinancialAnalyzer_def)
  show ?thesis
  proof (cases "snd (snd (fetch_of env))")
    case (Inl e)
    then show ?thesis
      using assms r by (simp add: main_def Let_def case_prod_beta)
  next
    case (Inr ok)
    show ?thesis
    proof (cases ok)
      case False
      then show ?thesis
        using assms Inr r by (simp add: main_def Let_def case_prod_beta)
    next
      case True
      show ?thesis
      proof (cases "snd (snd (calc_of env))")
        case (Some e)
        then show ?thesis
          using assms Inr True r by (simp add: main_def Let_def case_prod_beta)
      next
        case None
        then show ?thesis
          using assms Inr True r by (simp add: main_def Let_def case_prod_beta)
      qed
    qed
  qed
qed

lemma demo_report:
  assumes "financial_ratios a \<noteq> []"
  shows "snd (generate_financial_report format_2f_py demo_chat a) = Inr (Some ''Solid.'')"
proof -
  obtain rt where "ratios_text format_2f_py [] (financial_ratios a) = Inr rt"
    using ratios_text_py by blast
  then show ?thesis
    using assms
    by (simp add: generate_financial_report_def Let_def demo_chat_def first_content_def
        strip_def isspace_def)
qed

lemma demo_env_fields:
  "format_2f demo_env = format_2f_py" "chat_create demo_env = demo_chat"
  by (simp_all add: demo_env_def)

lemma demo_calc:
  "upper (text_input demo_env) = ''AAPL''" "snd (snd (fetch_of demo_env)) = Inr True"
  "snd (snd (calc_of demo_env)) = None" "financial_ratios (fst (calc_of demo_env)) \<noteq> []"
  by (simp_all add: demo_env_def demo_provider_def complete_income_def complete_balance_def
      upper_def upper_char_def char_eval fetch_financial_statements_def FinancialAnalyzer_def
      calculate_financial_ratios_def ratios_body_def ratio_block_def quotient_def
      loc_iloc0_def loc_def iloc0_def truediv_py_def Let_def)

lemma demo_run:
  "St_write ''Solid.'' \<in> set (fst (main demo_env))
   \<and> St_markdown (get_text_download_link ''Solid.'' ''AAPL_financial_report.txt'')
       \<in> set (fst (main demo_env))"
proof -
  have g: "snd (generate_financial_report (format_2f demo_env) (chat_create demo_env)
      (fst (calc_of demo_env))) = Inr (Some ''Solid.'')"
    using demo_report [OF demo_calc(4)] by (simp only: demo_env_fields)
  show ?thesis
    using demo_calc g
    by (simp add: main_write main_markdown ratios_branch_write ratios_branch_markdown)
qed

lemma analysed_ratios:
  "financial_ratios analysed
     = [(''Gross Margin'', 170782000000 / 394328000000),
        (''Current Ratio'', 135405000000 / 153982000000),
        (''Debt-to-Equity Ratio'', 302083000000 / 50672000000)]
   \<and> ticker analysed = ''AAPL''"
  by (simp add: analysed_def eval_defs truediv_py_def complete_income_def complete_balance_def)

lemma format_examples:
  "format_2f_py (170782000000 / 394328000000) = Inr ''0.43''
   \<and> format_2f_py (135405000000 / 153982000000) = Inr ''0.88''
   \<and> format_2f_py (302083000000 / 50672000000) = Inr ''5.96''"
  by (simp add: format_2f_py_def round_half_even_def Let_def dec.simps char_eval)

lemma analysed_ratios_text:
  "ratios_text format_2f_py [] (financial_ratios analysed) = Inr analysed_text"
  using format_examples by (simp add: analysed_ratios analysed_text_def)

text \<open>
  C6: for every report text, decoding the payload of the link gives back the bytes of
  the text, and the value of the link's \<^verbatim>\<open>download\<close> attribute is the file name it was
  given. A link that a run of \<^verbatim>\<open>main\<close> shows carries the report the run displays, and
  the name \<^verbatim>\<open>{TICKER}_financial_report.txt\<close> of the uppercased ticker.
\<close>

theorem download_link_round_trip:
  "b64decode (href_payload (get_text_download_link report filename)) = Some (str_encode report)
   \<and> href_download (get_text_download_link report filename) = filename
   \<and> (St_markdown m \<in> set (fst (main env)) \<longrightarrow>
        (\<exists>r. St_write r \<in> set (fst (main env))
           \<and> b64decode (href_payload m) = Some (str_encode r))
        \<and> href_download m = upper (text_input env) @ ''_financial_report.txt'')"
proof -
  have p: "b64decode (href_payload (get_text_download_link r f)) = Some (str_encode r)"
    for r f
    by (simp add: payload_of_link decode_encode str_encode_def)
  have "St_markdown m \<in> set (fst (main env)) \<Longrightarrow>
      (\<exists>r. St_write r \<in> set (fst (main env))
         \<and> b64decode (href_payload m) = Some (str_encode r))
      \<and> href_download m = upper (text_input env) @ ''_financial_report.txt''"
  proof -
    assume "St_markdown m \<in> set (fst (main env))"
    then obtain r where r: "St_write r \<in> set (fst (main env))"
      and m: "m = get_text_download_link r (upper (text_input env) @ ''_financial_report.txt'')"
      using main_link by blast
    show ?thesis
      using r unfolding m by (auto simp: p download_of_link)
  qed
  then show ?thesis by (simp add: p download_of_link)
qed

theorem download_link_round_trip_witness:
  "St_markdown (get_text_download_link ''Solid.'' ''AAPL_financial_report.txt'')
     \<in> set (fst (main demo_env))
   \<and> St_write ''Solid.'' \<in> set (fst (main demo_env))
   \<and> href_payload (get_text_download_link ''Solid.'' ''AAPL_financial_report.txt'')
       = ''U29saWQu''
   \<and> b64decode ''U29saWQu'' = Some ''Solid.''
   \<and> href_download (get_text_download_link ''Solid.'' ''AAPL_financial_report.txt'')
       = upper ''aapl'' @ ''_financial_report.txt''"
proof -
  have e: "href_payload (get_text_download_link ''Solid.'' ''AAPL_financial_report.txt'')
      = ''U29saWQu''"
    by (simp add: href_payload_def get_text_download_link_def link_prefix_def link_middle_def
        bytes_decode_def str_encode_def b64char_def Let_def char_eval)
  show ?thesis
    using download_link_round_trip [of "''Solid.''" "''AAPL_financial_report.txt''"
        "get_text_download_link ''Solid.'' ''AAPL_financial_report.txt''" demo_env]
      demo_run demo_calc e
    by (simp add: str_encode_def demo_env_def)
qed



text \<open>
  C9: every use of the ticker in a run of \<^verbatim>\<open>main\<close> is of the uppercased input. The
  analyzer is made with it and keeps it, every read of the provider is for it, and the
  file name of the link is built from it; a run with a ticker makes the analyzer and
  starts the fetch. The uppercased string has no letter from \<^verbatim>\<open>a\<close> to \<^verbatim>\<open>z\<close>.
\<close>

theorem ticker_uppercased:
  "(Yf_Ticker u \<in> set (fst (main env)) \<longrightarrow> u = upper (text_input env))
   \<and> (Yf_read u x \<in> set (fst (main env)) \<longrightarrow> u = upper (text_input env))
   \<and> (St_markdown m \<in> set (fst (main env)) \<longrightarrow>
        href_download m = upper (text_input env) @ ''_financial_report.txt'')
   \<and> (upper (text_input env) \<noteq> [] \<longrightarrow>
        Yf_Ticker (upper (text_input env)) \<in> set (fst (main env))
        \<and> Yf_read (upper (text_input env)) ''financials'' \<in> set (fst (main env)))
   \<and> ticker (fst (fetch_of env)) = upper (text_input env)
   \<and> ticker (fst (calc_of env)) = upper (text_input env)
   \<and> (\<forall>c \<in> set (upper s). \<not> (97 \<le> (of_char c :: nat) \<and> (of_char c :: nat) \<le> 122))"
proof -
  have d: "St_markdown m \<in> set (fst (main env)) \<Longrightarrow>
      href_download m = upper (text_input env) @ ''_financial_report.txt''"
    using main_link [of m env] by (auto simp: download_of_link)
  have t: "ticker (fst (fetch_of env)) = upper (text_input env)"
    by (simp add: fetch_ticker FinancialAnalyzer_def)
  have c: "ticker (fst (calc_of env)) = upper (text_input env)"
    by (simp add: calculate_ticker t)
  have l: "\<forall>c \<in> set (upper s). \<not> (97 \<le> (of_char c :: nat) \<and> (of_char c :: nat) \<le> 122)"
    using upper_char_not_lower by (auto simp: upper_def)
  show ?thesis
    using main_yf [of u env x] d main_starts [of env] t c l
    by (simp add: upper_def)
qed

theorem ticker_uppercased_witness:
  "upper (text_input demo_env) = ''AAPL''
   \<and> Yf_Ticker ''AAPL'' \<in> set (fst (main demo_env))
   \<and> Yf_read ''AAPL'' ''financials'' \<in> set (fst (main demo_env))
   \<and> St_markdown (get_text_download_link ''Solid.'' ''AAPL_financial_report.txt'')
       \<in> set (fst (main demo_env))
   \<and> href_download (get_text_download_link ''Solid.'' ''AAPL_financial_report.txt'')
       = ''AAPL_financial_report.txt''
   \<and> ticker (fst (calc_of demo_env)) = ''AAPL''"
  using ticker_uppercased [of "''AAPL''" demo_env "''financials''"
      "get_text_download_link ''Solid.'' ''AAPL_financial_report.txt''" "''aapl''"]
    demo_run demo_calc
  by simp

text \<open>
  C10: when the completion API returns a response whose first choice has a text,
  both report generators return that text stripped: the text without the white space
  at its two ends, so that what is returned neither begins nor ends with a character
  of white space. Every report that a run of \<^verbatim>\<open>main\<close> displays, and with it the report
  in the link, is not empty and has no white space at either end.
\<close>

theorem report_is_stripped:
  "(create (fallback_request (fallback_prompt (ticker a))) = Inr resp
      \<and> choices resp = Some t # rest \<longrightarrow>
      snd (generate_report_with_available_data create a) = Inr (Some (strip t)))
   \<and> (financial_ratios a \<noteq> [] \<and> ratios_text fmt [] (financial_ratios a) = Inr rt
      \<and> create (ratio_request (ratio_prompt (ticker a) rt)) = Inr resp
      \<and> choices resp = Some t # rest \<longrightarrow>
      snd (generate_financial_report fmt create a) = Inr (Some (strip t)))
   \<and> (\<exists>pre post. t = pre @ strip t @ post \<and> (\<forall>c \<in> set pre. isspace c)
        \<and> (\<forall>c \<in> set post. isspace c))
   \<and> (strip t \<noteq> [] \<longrightarrow> \<not> isspace (hd (strip t)) \<and> \<not> isspace (last (strip t)))
   \<and> (St_write r \<in> set (fst (main env)) \<longrightarrow>
        r \<noteq> [] \<and> \<not> isspace (hd r) \<and> \<not> isspace (last r))
   \<and> (St_markdown m \<in> set (fst (main env)) \<longrightarrow>
        (\<exists>r. b64decode (href_payload m) = Some r
           \<and> r \<noteq> [] \<and> \<not> isspace (hd r) \<and> \<not> isspace (last r)))"
proof -
  have f: "snd (generate_report_with_available_data create a) = Inr (Some (strip t))"
    if "create (fallback_request (fallback_prompt (ticker a))) = Inr resp"
      "choices resp = Some t # rest"
    using that by (simp add: generate_report_with_available_data_def Let_def first_content_def)
  have g: "snd (generate_financial_report fmt create a) = Inr (Some (strip t))"
    if "financial_ratios a \<noteq> []" "ratios_text fmt [] (financial_ratios a) = Inr rt"
      "create (ratio_request (ratio_prompt (ticker a) rt)) = Inr resp"
      "choices resp = Some t # rest"
    using that by (simp add: generate_financial_report_def Let_def first_content_def)
  have w: "r \<noteq> [] \<and> \<not> isspace (hd r) \<and> \<not> isspace (last r)"
    if h: "St_write r \<in> set (fst (main env))" for r
  proof -
    obtain t' where "r \<noteq> []" "r = strip t'"
      using main_write_stripped [OF h] by blast
    then show ?thesis using strip_edges [of t'] by simp
  qed
  have l: "\<exists>r. b64decode (href_payload m) = Some r
      \<and> r \<noteq> [] \<and> \<not> isspace (hd r) \<and> \<not> isspace (last r)"
    if h: "St_markdown m \<in> set (fst (main env))"
  proof -
    obtain r where r: "St_write r \<in> set (fst (main env))"
      and m: "m = get_text_download_link r (upper (text_input env) @ ''_financial_report.txt'')"
      using main_link [OF h] by blast
    have "b64decode (href_payload m) = Some r"
      unfolding m by (simp add: payload_of_link decode_encode)
    then show ?thesis using w [OF r] by blast
  qed
  show ?thesis
    using f g w l strip_parts [of t] strip_edges [of t] by blast
qed

theorem report_is_stripped_witness:
  "financial_ratios analysed \<noteq> []
   \<and> ratios_text format_2f_py [] (financial_ratios analysed) = Inr analysed_text
   \<and> demo_chat (ratio_request (ratio_prompt (ticker analysed) analysed_text))
       = Inr \<lparr>choices = [Some ('' Solid.'' @ [CHR 0x0A])]\<rparr>
   \<and> demo_chat (fallback_request (fallback_prompt (ticker analysed)))
       = Inr \<lparr>choices = [Some ('' Solid.'' @ [CHR 0x0A])]\<rparr>
   \<and> strip ('' Solid.'' @ [CHR 0x0A]) = ''Solid.''
   \<and> snd (generate_financial_report format_2f_py demo_chat analysed) = Inr (Some ''Solid.'')
   \<and> snd (generate_report_with_available_data demo_chat analysed) = Inr (Some ''Solid.'')
   \<and> St_write ''Solid.'' \<in> set (fst (main demo_env))
   \<and> \<not> isspace (hd ''Solid.'') \<and> \<not> isspace (last ''Solid.'')"
proof -
  have s: "strip ('' Solid.'' @ [CHR 0x0A]) = ''Solid.''"
    by (simp add: strip_def isspace_def)
  have a: "financial_ratios analysed \<noteq> []" by (simp add: analysed_ratios)
  show ?thesis
    using report_is_stripped [of demo_chat analysed "\<lparr>choices = [Some ('' Solid.'' @ [CHR 0x0A])]\<rparr>"
        "'' Solid.'' @ [CHR 0x0A]" "[]" format_2f_py analysed_text "''Solid.''" demo_env
        "get_text_download_link ''Solid.'' ''AAPL_financial_report.txt''"]
      a analysed_ratios_text demo_run s
    by (simp add: demo_chat_def)
qed

end
